theory Spec2Isabelle
  imports Complex_Main
begin

section \<open>Data model\<close>

text \<open>
  The expense module of the API (\<^verbatim>\<open>server/graphql/common/expenses.ts\<close>) is embedded
  function by function. Database rows are records, enums are datatypes, every
  \<^verbatim>\<open>throw\<close> is an \<open>Inl\<close> result, and every asynchronous function that writes to
  the database, the cache or a payment provider passes a \<open>world\<close> along.
\<close>

text \<open>
  Modelled from the spec: the enums of \<^verbatim>\<open>models/Expense\<close> and \<^verbatim>\<open>models/PayoutMethod\<close>, which
  are not in the sources. The spec lists the statuses "DRAFT, UNVERIFIED, PENDING,
  INCOMPLETE, APPROVED, REJECTED, SPAM, ERROR, SCHEDULED_FOR_PAYMENT, PROCESSING, PAID,
  CANCELED, INVITE_DECLINED", the types "RECEIPT, INVOICE, GRANT, CHARGE, SETTLEMENT,
  UNCLASSIFIED" and the payout method types "BANK_ACCOUNT, PAYPAL, ACCOUNT_BALANCE,
  STRIPE/settlement-only, OTHER". The fees payer is a string that the code compares with
  'COLLECTIVE' and 'PAYEE'. The lockable fields are the members of
  \<^verbatim>\<open>ExpenseLockableFields\<close> that checkLockedFields names (AMOUNT, PAYEE, DESCRIPTION, TYPE),
  prefixed here because PAYEE is also a fees payer.
\<close>

datatype ExpenseStatus =
  DRAFT | UNVERIFIED | PENDING | INCOMPLETE | APPROVED | REJECTED | SPAM | ERROR
  | SCHEDULED_FOR_PAYMENT | PROCESSING | PAID | CANCELED | INVITE_DECLINED

datatype ExpenseType = RECEIPT | INVOICE | GRANT | CHARGE | SETTLEMENT | UNCLASSIFIED

datatype ExpenseFeesPayer = COLLECTIVE | PAYEE | OtherFeesPayer string

datatype PayoutMethodTypes = OTHER | PAYPAL | BANK_ACCOUNT | ACCOUNT_BALANCE | STRIPE

datatype ExpenseLockableFields = LOCK_AMOUNT | LOCK_PAYEE | LOCK_DESCRIPTION | LOCK_TYPE

datatype error_code =
  INVALID_SCOPE | UNSUPPORTED_STATUS | UNSUPPORTED_USER_FEATURE | MINIMAL_CONDITION_NOT_MET
  | AUTHOR_CANNOT_APPROVE

text \<open>
  The error classes of \<^verbatim>\<open>server/graphql/errors\<close>, the plain JavaScript \<^verbatim>\<open>Error\<close>
  (\<open>JsError\<close>), the error of a failed \<^verbatim>\<open>assert\<close> with a string message, the
  \<^verbatim>\<open>TypeError\<close> of a property read on \<^verbatim>\<open>null\<close>/\<^verbatim>\<open>undefined\<close>, and the errors
  raised by collaborators that are outside this module (\<open>ExternalError\<close>).
  Interpolated parts of a message that only format amounts, or name an item, are left
  out of the text; an interpolated status is kept.
\<close>

datatype error =
  Unauthorized string
  | FeatureNotAllowedForUser
  | NotFound string
  | Forbidden string "error_code option"
  | ValidationFailed string
  | BadRequest string
  | JsError string
  | AssertionError string
  | TypeError
  | FeatureNotSupportedForCollective string
  | ExternalError string

datatype activity =
  COLLECTIVE_EXPENSE_APPROVED | COLLECTIVE_EXPENSE_UNAPPROVED | COLLECTIVE_EXPENSE_REJECTED
  | COLLECTIVE_EXPENSE_MARKED_AS_SPAM | COLLECTIVE_EXPENSE_PROCESSING | COLLECTIVE_EXPENSE_PAID

fun statusName :: "ExpenseStatus \<Rightarrow> string" where
  "statusName DRAFT = ''DRAFT''"
| "statusName UNVERIFIED = ''UNVERIFIED''"
| "statusName PENDING = ''PENDING''"
| "statusName INCOMPLETE = ''INCOMPLETE''"
| "statusName APPROVED = ''APPROVED''"
| "statusName REJECTED = ''REJECTED''"
| "statusName SPAM = ''SPAM''"
| "statusName ERROR = ''ERROR''"
| "statusName SCHEDULED_FOR_PAYMENT = ''SCHEDULED_FOR_PAYMENT''"
| "statusName PROCESSING = ''PROCESSING''"
| "statusName PAID = ''PAID''"
| "statusName CANCELED = ''CANCELED''"
| "statusName INVITE_DECLINED = ''INVITE_DECLINED''"

text \<open>
  The value \<^verbatim>\<open>getPolicy(account, POLICIES.EXPENSE_AUTHOR_CANNOT_APPROVE)\<close> returns
  (\<^verbatim>\<open>lib/policies\<close> is outside this module, so the value is part of the input).
\<close>

record policy =
  enabled :: bool
  amountInCents :: int
  appliesToHostedCollectives :: bool
  appliesToSingleAdminCollectives :: bool

text \<open>
  A payer account as \<^verbatim>\<open>canApprove\<close> and the role predicates read it. \<open>hostPolicy\<close>
  and \<open>collectivePolicy\<close> are the two \<^verbatim>\<open>getPolicy\<close> results, \<open>collectiveAdminCount\<close>
  the result of the \<^verbatim>\<open>countAdminMembersOfCollective\<close> loader.
\<close>

record collective =
  collectiveId :: nat
  collectiveCurrency :: string
  collectiveHostCollectiveId :: "nat option"
  isActive :: bool
  hostPolicy :: policy
  collectivePolicy :: policy
  collectiveAdminCount :: nat

text \<open>
  The logged-in user. \<open>isAdmin\<close> and \<open>isAdminOfCollective\<close> are the methods of the User
  model (outside this module), as functions of the account id.
\<close>

record user =
  userId :: nat
  isAdmin :: "nat \<Rightarrow> bool"
  isAdminOfCollective :: "nat \<Rightarrow> bool"
  isAdminOfPlatform :: bool

text \<open>
  The request: \<open>checkScope_expenses\<close> is \<^verbatim>\<open>checkScope(req, 'expenses')\<close> and
  \<open>canUseFeature_USE_EXPENSES\<close> is \<^verbatim>\<open>canUseFeature(req.remoteUser, FEATURE.USE_EXPENSES)\<close>,
  both computed outside this module.
\<close>

record request =
  remoteUser :: "user option"
  checkScope_expenses :: bool
  canUseFeature_USE_EXPENSES :: bool

text \<open>
  An expense row. \<open>collective\<close> is \<^verbatim>\<open>expense.collective\<close> after the loader ran (None when
  the payer account does not exist); \<open>isLocked\<close>, \<open>lockedFields\<close> and \<open>dataPayee\<close> are the
  entries \<^verbatim>\<open>isLocked\<close>, \<^verbatim>\<open>lockedFields\<close> and \<^verbatim>\<open>payee\<close> of the \<^verbatim>\<open>data\<close> bag (None when
  the entry is absent); \<open>RecurringExpenseId\<close> is what \<^verbatim>\<open>getRecurringExpense\<close> follows;
  \<open>fromCollectiveIsVendor\<close> is \<^verbatim>\<open>expense.fromCollective.type === CollectiveType.VENDOR\<close>.
  The payee stored in a draft is identified by an account id, by an e-mail address, or by
  neither (a slug or a name only).
\<close>

datatype draftPayee = PayeeWithId nat | PayeeWithEmail string | PayeeWithoutIdOrEmail

record expense =
  expenseId :: nat
  status :: ExpenseStatus
  expenseType :: ExpenseType
  amount :: int
  expenseCurrency :: string
  feesPayer :: ExpenseFeesPayer
  UserId :: nat
  lastEditedById :: "nat option"
  HostCollectiveId :: "nat option"
  collective :: "collective option"
  legacyPayoutMethod :: string
  isLocked :: bool
  RecurringExpenseId :: "nat option"
  description :: string
  lockedFields :: "ExpenseLockableFields list option"
  dataPayee :: "draftPayee option"
  FromCollectiveId :: nat
  fromCollectiveIsVendor :: bool
  VirtualCardId :: "nat option"

text \<open>
  Everything the actions write to: the Expenses table, the activity log, the set of users
  whose USE_EXPENSES feature was limited, the RecurringExpenses table, the Slack
  notifications of the spam module, the cache holding the two-factor rolling counter
  (the key \<^verbatim>\<open>`${userId}_2fa_payment_limit`\<close> is the user id; expiry is not modelled), the
  calls made to payment providers, and the expenses for which ledger transactions were
  created.
\<close>

datatype providerCall = WiseQuote | WisePayExpense | PayPalAdaptivePay

record world =
  Expenses :: "nat \<rightharpoonup> expense"
  activities :: "(activity \<times> nat) list"
  limitedFeature_USE_EXPENSES :: "nat set"
  RecurringExpenses :: "nat set"
  spamNotifications :: "nat list"
  cache :: "nat \<rightharpoonup> int"
  providerCalls :: "providerCall list"
  ledger :: "nat list"

section \<open>Numbers\<close>

text \<open>
  Amounts are integers (minor units); exchange rates are JavaScript numbers, idealised
  here as rationals. \<^verbatim>\<open>Math.round\<close> rounds to the nearest integer, halves upwards.
  A division keeps the three results a double division has besides a finite quotient.
\<close>

definition Math_round :: "rat \<Rightarrow> int" where
  "Math_round x = \<lfloor>x + 1 / 2\<rfloor>"

datatype jsnumber = Finite rat | PosInfinity | NegInfinity | NaN

definition js_divide :: "rat \<Rightarrow> rat \<Rightarrow> jsnumber" where
  "js_divide a b =
     (if b = 0 then (if a > 0 then PosInfinity else if a < 0 then NegInfinity else NaN)
      else Finite (a / b))"

fun js_round :: "jsnumber \<Rightarrow> jsnumber" where
  "js_round (Finite x) = Finite (of_int (Math_round x))"
| "js_round n = n"

fun js_less :: "int \<Rightarrow> jsnumber \<Rightarrow> bool" where
  \<comment> \<open>\<^verbatim>\<open>a < b\<close> for an integer \<^verbatim>\<open>a\<close>: false against NaN\<close>
  "js_less a (Finite x) = (of_int a < x)"
| "js_less a PosInfinity = True"
| "js_less a NegInfinity = False"
| "js_less a NaN = False"

section \<open>Items and attached files\<close>

record ExpenseItem =
  itemAmount :: "int option"
  itemDescription :: "string option"
  url :: "string option"
  expenseCurrencyFxRate :: "rat option"

record ExpenseTaxDefinition =
  taxRate :: rat

definition truthy :: "string option \<Rightarrow> bool" where
  \<comment> \<open>a JavaScript string in a condition: absent and empty strings are false\<close>
  "truthy v = (case v of None \<Rightarrow> False | Some t \<Rightarrow> t \<noteq> [])"

definition itemTotal :: "ExpenseTaxDefinition list \<Rightarrow> ExpenseItem \<Rightarrow> rat" where
  "itemTotal taxes item =
     (let amountInCents =
            of_int (Math_round (of_int (case itemAmount item of None \<Rightarrow> 0 | Some a \<Rightarrow> a)
                       * (case expenseCurrencyFxRate item of None \<Rightarrow> 1 | Some r \<Rightarrow> r)))
      in amountInCents + sum_list (map (\<lambda>tax. amountInCents * taxRate tax) taxes))"

definition computeTotalAmountForExpense :: "ExpenseItem list \<Rightarrow> ExpenseTaxDefinition list \<Rightarrow> int" where
  \<comment> \<open>Modelled from the spec: \<^verbatim>\<open>Expense.computeTotalAmountForExpense\<close> (models/Expense is not in
      the sources): the amount "equals the sum of line items' amounts expressed in expense
      currency (after FX normalization) plus taxes".\<close>
  "computeTotalAmountForExpense items taxes = Math_round (sum_list (map (itemTotal taxes) items))"

definition checkExpenseItems ::
  "ExpenseType \<Rightarrow> ExpenseItem list option \<Rightarrow> ExpenseTaxDefinition list \<Rightarrow> error + unit" where
  "checkExpenseItems expenseType' items taxes =
     (case items of
        None \<Rightarrow> Inl (ValidationFailed ''Your expense needs to have at least one item'')
      | Some its \<Rightarrow>
          if length its = 0 then
            Inl (ValidationFailed ''Your expense needs to have at least one item'')
          else if length its > 300 then
            Inl (ValidationFailed ''Expenses cannot have more than 300 items'')
          else if list_ex (\<lambda>item. itemAmount item = None) its then
            Inl (ValidationFailed ''Amount not set for item'')
          else if computeTotalAmountForExpense its taxes = 0 then
            Inl (ValidationFailed ''The sum of all items must be above 0'')
          else if expenseType' = RECEIPT then
            (if list_ex (\<lambda>a. \<not> truthy (url a)) its then
               Inl (ValidationFailed ''Some items are missing a file'')
             else Inr ())
          else if expenseType' = INVOICE then
            (if list_ex (\<lambda>a. truthy (url a)) its then
               Inl (ValidationFailed ''Invoice items cannot have a file attached. To attach documentation. please use `attachedFiles` on the expense instead.'')
             else Inr ())
          else Inr ())"

definition checkAttachedFiles :: "'a list \<Rightarrow> error + unit" where
  \<comment> \<open>\<^verbatim>\<open>if (size(expenseData.attachedFiles) > 15) { throw new ValidationFailed(...) }\<close>, the same
      statement in createExpense and in editExpense\<close>
  "checkAttachedFiles attachedFiles =
     (if length attachedFiles > 15 then
        Inl (ValidationFailed
               ''The number of files that you can attach to an expense is limited to 15'')
      else Inr ())"

section \<open>Locked fields\<close>

text \<open>
  The part of \<^verbatim>\<open>ExpenseData\<close> that \<^verbatim>\<open>checkLockedFields\<close> reads. A field is None when the
  edit does not carry it (\<^verbatim>\<open>undefined\<close> or \<^verbatim>\<open>null\<close>). The payee of an edit is an account
  (its \<^verbatim>\<open>id\<close>), a \<^verbatim>\<open>{ legacyId }\<close> reference or an \<^verbatim>\<open>{ email, name }\<close> invitation; an id
  of 0 stands for a missing id.
\<close>

datatype payeeInput = PayeeAccount nat | PayeeLegacyId nat | PayeeEmail string

record ExpenseData =
  newDescription :: "string option"
  newType :: "ExpenseType option"
  newAmount :: "int option"
  newCurrency :: "string option"
  payee :: "payeeInput option"





section \<open>Permission evaluators\<close>

definition PlatformUserId :: nat where
  \<comment> \<open>Modelled from the spec: \<^verbatim>\<open>PlatformConstants.PlatformUserId\<close> (constants/platform is not
      in the sources) is the user id of "the distinguished platform-operated payer account";
      only its being one fixed id matters.\<close>
  "PlatformUserId = 0"

definition isPlatformAdmin :: "request \<Rightarrow> expense \<Rightarrow> bool" where
  "isPlatformAdmin req expense =
     (case remoteUser req of None \<Rightarrow> False | Some u \<Rightarrow> isAdminOfPlatform u)"

definition isCollectiveAdmin :: "request \<Rightarrow> expense \<Rightarrow> bool" where
  \<comment> \<open>without a payer account, \<^verbatim>\<open>isAdminOfCollective(undefined)\<close> is taken to answer false\<close>
  "isCollectiveAdmin req expense =
     (case remoteUser req of
        None \<Rightarrow> False
      | Some u \<Rightarrow>
          (case collective expense of
             None \<Rightarrow> False
           | Some c \<Rightarrow> isAdminOfCollective u (collectiveId c)))"

definition isHostAdmin :: "request \<Rightarrow> expense \<Rightarrow> bool" where
  \<comment> \<open>\<^verbatim>\<open>isAdmin\<close> of a missing host id is taken to answer false\<close>
  "isHostAdmin req expense =
     (case remoteUser req of
        None \<Rightarrow> False
      | Some u \<Rightarrow>
          (case HostCollectiveId expense of
             Some h \<Rightarrow> isAdmin u h
           | None \<Rightarrow>
               (case collective expense of
                  None \<Rightarrow> False
                | Some c \<Rightarrow>
                    (case collectiveHostCollectiveId c of
                       None \<Rightarrow> False
                     | Some h \<Rightarrow> isAdmin u h \<and> isActive c))))"

definition remoteUserMeetsOneCondition ::
  "request \<Rightarrow> expense \<Rightarrow> (request \<Rightarrow> expense \<Rightarrow> bool) list \<Rightarrow> bool \<Rightarrow> error + bool" where
  "remoteUserMeetsOneCondition req expense conditions throw =
     (case remoteUser req of
        None \<Rightarrow>
          (if throw then Inl (Forbidden ''User is required'' (Some MINIMAL_CONDITION_NOT_MET))
           else Inr False)
      | Some u \<Rightarrow>
          (if list_ex (\<lambda>condition. condition req expense) conditions then Inr True
           else if throw then
             Inl (Forbidden ''You do not have the necessary permissions to perform this action''
                    (Some MINIMAL_CONDITION_NOT_MET))
           else Inr False))"

definition validateExpenseScope :: "request \<Rightarrow> bool \<Rightarrow> error + bool" where
  "validateExpenseScope req throw =
     (if \<not> checkScope_expenses req then
        (if throw then
           Inl (Forbidden ''You do not have the necessary scope to perform this action''
                  (Some INVALID_SCOPE))
         else Inr False)
      else Inr True)"

definition missingScope :: "bool \<Rightarrow> error + bool" where
  "missingScope throw =
     (if throw then
        Inl (Forbidden ''Your current token is missing the necessary scope'' (Some INVALID_SCOPE))
      else Inr False)"

definition refuse :: "bool \<Rightarrow> string \<Rightarrow> error_code \<Rightarrow> error + bool" where
  \<comment> \<open>the recurring \<^verbatim>\<open>if (options?.throw) { throw new Forbidden(msg, code) } return false\<close>\<close>
  "refuse throw msg code = (if throw then Inl (Forbidden msg (Some code)) else Inr False)"

definition selectedPolicy :: "collective \<Rightarrow> policy" where
  \<comment> \<open>the \<^verbatim>\<open>let policy = collectivePolicy; if (hostPolicy.enabled && ...)\<close> block of canApprove\<close>
  "selectedPolicy c =
     (if enabled (hostPolicy c) \<and> appliesToHostedCollectives (hostPolicy c) then
        (if \<not> appliesToSingleAdminCollectives (hostPolicy c) \<and> collectiveAdminCount c = 1
         then collectivePolicy c
         else hostPolicy c)
      else collectivePolicy c)"

definition authorCannotApprove :: "request \<Rightarrow> expense \<Rightarrow> policy \<Rightarrow> error + bool" where
  \<comment> \<open>\<^verbatim>\<open>policy.enabled && expense.amount >= policy.amountInCents && req.remoteUser.id === expense.UserId\<close>;
      the last conjunct reads \<^verbatim>\<open>req.remoteUser.id\<close>, a TypeError without a user\<close>
  "authorCannotApprove req expense policy =
     (if enabled policy \<and> amount expense \<ge> amountInCents policy then
        (case remoteUser req of
           None \<Rightarrow> Inl TypeError
         | Some u \<Rightarrow> Inr (userId u = UserId expense))
      else Inr False)"

definition canPayExpense :: "request \<Rightarrow> expense \<Rightarrow> bool \<Rightarrow> error + bool" where
  "canPayExpense req expense throw =
     (case validateExpenseScope req throw of
        Inl e \<Rightarrow> Inl e
      | Inr False \<Rightarrow> missingScope throw
      | Inr True \<Rightarrow>
          if status expense \<notin> {APPROVED, ERROR} then
            refuse throw ''Can not pay expense in current status'' UNSUPPORTED_STATUS
          else if \<not> canUseFeature_USE_EXPENSES req then
            refuse throw ''User cannot pay expenses'' UNSUPPORTED_USER_FEATURE
          else remoteUserMeetsOneCondition req expense [isHostAdmin] throw)"

definition canApprove :: "request \<Rightarrow> expense \<Rightarrow> bool \<Rightarrow> error + bool" where
  "canApprove req expense throw =
     (case validateExpenseScope req throw of
        Inl e \<Rightarrow> Inl e
      | Inr False \<Rightarrow> missingScope throw
      | Inr True \<Rightarrow>
          if status expense \<notin> {PENDING, REJECTED, INCOMPLETE} then
            refuse throw
              (''Can not approve expense in current status ('' @ statusName (status expense) @ '')'')
              UNSUPPORTED_STATUS
          else if \<not> canUseFeature_USE_EXPENSES req then
            refuse throw ''User cannot approve expenses'' UNSUPPORTED_USER_FEATURE
          else
            (case collective expense of
               None \<Rightarrow> Inl TypeError
             | Some c \<Rightarrow>
                 (case authorCannotApprove req expense (selectedPolicy c) of
                    Inl e \<Rightarrow> Inl e
                  | Inr True \<Rightarrow>
                      refuse throw ''User cannot approve their own expenses'' AUTHOR_CANNOT_APPROVE
                  | Inr False \<Rightarrow>
                      if status expense = INCOMPLETE then
                        (if isHostAdmin req expense then Inr True
                         else refuse throw ''Only host admins can approve incomplete expenses''
                                MINIMAL_CONDITION_NOT_MET)
                      else remoteUserMeetsOneCondition req expense
                             [isCollectiveAdmin, isHostAdmin] throw)))"

definition canReject :: "request \<Rightarrow> expense \<Rightarrow> bool \<Rightarrow> error + bool" where
  "canReject req expense throw =
     (case validateExpenseScope req throw of
        Inl e \<Rightarrow> Inl e
      | Inr False \<Rightarrow> missingScope throw
      | Inr True \<Rightarrow>
          if status expense \<notin> {PENDING, UNVERIFIED, INCOMPLETE} then
            refuse throw
              (''Can not reject expense in current status ('' @ statusName (status expense) @ '')'')
              UNSUPPORTED_STATUS
          else if \<not> canUseFeature_USE_EXPENSES req then
            refuse throw ''User cannot reject expenses'' UNSUPPORTED_USER_FEATURE
          else if expenseType expense = SETTLEMENT then
            remoteUserMeetsOneCondition req expense [isPlatformAdmin] throw
          else remoteUserMeetsOneCondition req expense [isCollectiveAdmin, isHostAdmin] throw)"

definition canMarkAsSpam :: "request \<Rightarrow> expense \<Rightarrow> bool \<Rightarrow> error + bool" where
  "canMarkAsSpam req expense throw =
     (case validateExpenseScope req throw of
        Inl e \<Rightarrow> Inl e
      | Inr False \<Rightarrow> missingScope throw
      | Inr True \<Rightarrow>
          if status expense \<notin> {REJECTED} then
            refuse throw
              (''Can not mark expense as spam in current status (''
                 @ statusName (status expense) @ '')'')
              UNSUPPORTED_STATUS
          else if \<not> canUseFeature_USE_EXPENSES req then
            refuse throw ''User cannot mark expenses as spam'' UNSUPPORTED_USER_FEATURE
          else if UserId expense = PlatformUserId then
            refuse throw ''Cannot mark platform expenses as spam'' UNSUPPORTED_USER_FEATURE
          else remoteUserMeetsOneCondition req expense [isCollectiveAdmin, isHostAdmin] throw)"

definition canUnapprove :: "request \<Rightarrow> expense \<Rightarrow> bool \<Rightarrow> error + bool" where
  "canUnapprove req expense throw =
     (case validateExpenseScope req throw of
        Inl e \<Rightarrow> Inl e
      | Inr False \<Rightarrow> missingScope throw
      | Inr True \<Rightarrow>
          if status expense \<notin> {INCOMPLETE, APPROVED, ERROR} then
            refuse throw
              (''Can not unapprove expense in current status (''
                 @ statusName (status expense) @ '')'')
              UNSUPPORTED_STATUS
          else if \<not> canUseFeature_USE_EXPENSES req then
            refuse throw ''User cannot unapprove expenses'' UNSUPPORTED_USER_FEATURE
          else if status expense = INCOMPLETE then
            remoteUserMeetsOneCondition req expense [isHostAdmin] throw
          else remoteUserMeetsOneCondition req expense [isCollectiveAdmin, isHostAdmin] throw)"

section \<open>Editing an expense\<close>



definition hasMultiCurrency :: "string \<Rightarrow> string option \<Rightarrow> bool" where
  \<comment> \<open>\<^verbatim>\<open>collective.currency === host?.currency\<close>\<close>
  "hasMultiCurrency collectiveCurrency' hostCurrency' = (Some collectiveCurrency' = hostCurrency')"











section \<open>Status actions\<close>

definition expense_update :: "expense \<Rightarrow> world \<Rightarrow> world" where
  \<comment> \<open>\<^verbatim>\<open>expense.update(values)\<close>: the row with the new values is written to the table\<close>
  "expense_update e w = w\<lparr>Expenses := (Expenses w)(expenseId e \<mapsto> e)\<rparr>"

definition createActivity :: "activity \<Rightarrow> expense \<Rightarrow> world \<Rightarrow> world" where
  "createActivity a e w = w\<lparr>activities := activities w @ [(a, expenseId e)]\<rparr>"

definition statusAction ::
  "ExpenseStatus \<Rightarrow> (request \<Rightarrow> expense \<Rightarrow> bool \<Rightarrow> error + bool) \<Rightarrow> activity
     \<Rightarrow> request \<Rightarrow> expense \<Rightarrow> world \<Rightarrow> (error + expense) \<times> world" where
  \<comment> \<open>the body shared, word for word, by approveExpense, unapproveExpense and rejectExpense:
      return at the destination status, then the evaluator with \<^verbatim>\<open>{ throw: true }\<close>, then
      the update and the activity\<close>
  "statusAction target evaluator act req expense w =
     (if status expense = target then (Inr expense, w)
      else
        (case evaluator req expense True of
           Inl e \<Rightarrow> (Inl e, w)
         | Inr False \<Rightarrow> (Inl (Forbidden [] None), w)
         | Inr True \<Rightarrow>
             (case remoteUser req of
                None \<Rightarrow> (Inl TypeError, w)
              | Some u \<Rightarrow>
                  let updatedExpense = expense\<lparr>status := target, lastEditedById := Some (userId u)\<rparr>;
                      w1 = expense_update updatedExpense w;
                      w2 = createActivity act updatedExpense w1
                  in (Inr updatedExpense, w2))))"

definition approveExpense :: "request \<Rightarrow> expense \<Rightarrow> world \<Rightarrow> (error + expense) \<times> world" where
  "approveExpense = statusAction APPROVED canApprove COLLECTIVE_EXPENSE_APPROVED"

definition unapproveExpense :: "request \<Rightarrow> expense \<Rightarrow> world \<Rightarrow> (error + expense) \<times> world" where
  "unapproveExpense = statusAction PENDING canUnapprove COLLECTIVE_EXPENSE_UNAPPROVED"

definition rejectExpense :: "request \<Rightarrow> expense \<Rightarrow> world \<Rightarrow> (error + expense) \<times> world" where
  "rejectExpense = statusAction REJECTED canReject COLLECTIVE_EXPENSE_REJECTED"

definition limitFeature :: "nat \<Rightarrow> world \<Rightarrow> world" where
  \<comment> \<open>Modelled from the spec: \<^verbatim>\<open>User.limitFeature(FEATURE.USE_EXPENSES, reason)\<close> (the User
      model is not in the sources): "submitter's USE_EXPENSES feature becomes disabled".\<close>
  "limitFeature uid w =
     w\<lparr>limitedFeature_USE_EXPENSES := insert uid (limitedFeature_USE_EXPENSES w)\<rparr>"

definition destroyRecurringExpense :: "expense \<Rightarrow> world \<Rightarrow> world" where
  \<comment> \<open>\<^verbatim>\<open>const r = await expense.getRecurringExpense(); if (r) { await r.destroy(); }\<close>\<close>
  "destroyRecurringExpense e w =
     (case RecurringExpenseId e of
        None \<Rightarrow> w
      | Some r \<Rightarrow>
          if r \<in> RecurringExpenses w then w\<lparr>RecurringExpenses := RecurringExpenses w - {r}\<rparr>
          else w)"

definition notifyTeamAboutSpamExpense :: "expense \<Rightarrow> world \<Rightarrow> world" where
  "notifyTeamAboutSpamExpense e w = w\<lparr>spamNotifications := spamNotifications w @ [expenseId e]\<rparr>"

definition markExpenseAsSpam :: "request \<Rightarrow> expense \<Rightarrow> world \<Rightarrow> (error + expense) \<times> world" where
  "markExpenseAsSpam req expense w =
     (if status expense = SPAM then (Inr expense, w)
      else
        (case canMarkAsSpam req expense True of
           Inl e \<Rightarrow> (Inl e, w)
         | Inr False \<Rightarrow> (Inl (Forbidden [] None), w)
         | Inr True \<Rightarrow>
             (case remoteUser req of
                None \<Rightarrow> (Inl TypeError, w)
              | Some u \<Rightarrow>
                  let updatedExpense = expense\<lparr>status := SPAM, lastEditedById := Some (userId u)\<rparr>;
                      w1 = expense_update updatedExpense w;
                      w2 = limitFeature (UserId updatedExpense) w1;
                      w3 = destroyRecurringExpense updatedExpense w2;
                      w4 = createActivity COLLECTIVE_EXPENSE_MARKED_AS_SPAM updatedExpense w3;
                      w5 = notifyTeamAboutSpamExpense updatedExpense w4
                  in (Inr updatedExpense, w5))))"

section \<open>Soft lock\<close>

definition lockExpense ::
  "nat \<Rightarrow> (world \<Rightarrow> (error + 'a) \<times> world) \<Rightarrow> world \<Rightarrow> (error + 'a) \<times> world" where
  \<comment> \<open>The locking transaction, then \<^verbatim>\<open>try { return await callback() } finally { unlock }\<close>.
      The \<^verbatim>\<open>finally\<close> block reloads the row and calls \<^verbatim>\<open>update\<close> on it: when the row is gone
      that call is a TypeError, which replaces the callback's outcome.\<close>
  "lockExpense id' callback w =
     (case Expenses w id' of
        None \<Rightarrow> (Inl (NotFound ''Expense not found''), w)
      | Some expense \<Rightarrow>
          if isLocked expense then
            (Inl (JsError ''This expense is already been processed, please try again later''), w)
          else
            (case callback (expense_update (expense\<lparr>isLocked := True\<rparr>) w) of
               (result, w2) \<Rightarrow>
                 (case Expenses w2 id' of
                    None \<Rightarrow> (Inl TypeError, w2)
                  | Some reloaded \<Rightarrow>
                      (result, expense_update (reloaded\<lparr>isLocked := False\<rparr>) w2))))"

section \<open>Fees and balance\<close>

record host =
  hostId :: nat
  hostCurrency :: string
  payoutsTwoFactorAuthEnabled :: bool
  payoutsTwoFactorAuthRollingLimit :: "int option"
  transferwiseOtt :: bool

record PayoutMethod =
  payoutType :: PayoutMethodTypes
  payoutEmail :: string

record FeesArgs =
  paymentProcessorFeeInCollectiveCurrency :: "int option"
  hostFeeInCollectiveCurrency :: "int option"
  platformFeeInCollectiveCurrency :: "int option"

record FeesInHostCurrency =
  paymentProcessorFeeInHostCurrency :: "int option"
  hostFeeInHostCurrency :: "int option"
  platformFeeInHostCurrency :: "int option"

record FeesInExpenseCurrency =
  paymentProcessorFee :: "int option"
  hostFee :: "int option"
  platformFee :: "int option"

record BalanceCheckResult =
  feesInCollectiveCurrency :: FeesArgs
  feesInHostCurrency :: FeesInHostCurrency
  feesInExpenseCurrency :: FeesInExpenseCurrency
  totalAmountToPay :: "int option"

text \<open>
  What the payment functions obtain from collaborators outside this module, as values
  of the run: the balance of the payer (\<^verbatim>\<open>getBalanceWithBlockedFunds\<close>), the rates of
  \<^verbatim>\<open>getFxRate\<close>, the result of \<^verbatim>\<open>CurrencyExchangeRate.getPairStats\<close> as the pair
  (latestRate, stddev), or None when \<^verbatim>\<open>isNumber(exchangeStats?.latestRate)\<close> is false,
  \<^verbatim>\<open>PayoutMethod.typeSupportsFeesPayer\<close>, \<^verbatim>\<open>getPayoutMethodTypeFromLegacy\<close>,
  \<^verbatim>\<open>floatAmountToCents\<close>, the fee total of a stored Wise quote that passes the reuse
  test of getExpenseFees, the outcome of \<^verbatim>\<open>quoteExpense\<close> (an error, a quote without
  payment option, or the fee total), the PayPal adaptive fee, the host and payout method
  of the expense, the two-factor library, \<^verbatim>\<open>convertToCurrency\<close> of the expense amount
  into the host currency, and the outcome of each ledger or provider call of the dispatch.
\<close>

record payEnv =
  balanceInCollectiveCurrency :: int
  collectiveToHostFxRate :: rat
  collectiveToExpenseFxRate :: rat
  exchangeStats :: "(rat \<times> rat) option"
  typeSupportsFeesPayer :: "PayoutMethodTypes \<Rightarrow> bool"
  payoutMethodTypeFromLegacy :: PayoutMethodTypes
  floatAmountToCents :: "jsnumber \<Rightarrow> int"
  existingQuoteFee :: "rat option"
  quoteExpense :: "error + rat option"
  paypalFees :: int
  hostCollective :: "host option"
  payoutMethodOfExpense :: "PayoutMethod option"
  userHasTwoFactorAuthEnabled :: bool
  validateRequest :: "bool \<Rightarrow> error option"
  enforceForAccount :: "error option"
  expenseAmountInHostCurrency :: int
  findOrCreatePaymentMethod :: "error option"
  createTransactionsForManuallyPaidExpense :: "error option"
  createTransactionsFromPaidExpense :: "error option"
  hostPaypalPaymentMethodName :: "string option"
  payExpenseWithPayPalAdaptive :: "error option"
  getAccountForPaymentProvider :: "error option"
  transferwisePayExpense :: "error option"
  payeeHostId :: "nat option"

definition orZero :: "int option \<Rightarrow> int" where
  \<comment> \<open>\<^verbatim>\<open>value || 0\<close>\<close>
  "orZero v = (case v of None \<Rightarrow> 0 | Some n \<Rightarrow> n)"

definition getExpenseFees ::
  "payEnv \<Rightarrow> expense \<Rightarrow> host option \<Rightarrow> FeesArgs \<Rightarrow> PayoutMethod option \<Rightarrow> bool \<Rightarrow> world
     \<Rightarrow> (error + FeesArgs \<times> FeesInHostCurrency \<times> FeesInExpenseCurrency) \<times> world" where
  "getExpenseFees env expense host' fees payoutMethod useExistingWiseData w =
     (case collective expense of
        None \<Rightarrow> (Inl TypeError, w)
      | Some c \<Rightarrow>
     (case host' of
        None \<Rightarrow> (Inl TypeError, w)
      | Some h \<Rightarrow>
          let payoutMethodType =
                (case payoutMethod of Some pm \<Rightarrow> payoutType pm
                 | None \<Rightarrow> payoutMethodTypeFromLegacy env);
              fromQuote = (\<lambda>feeTotal. floatAmountToCents env (js_divide feeTotal (collectiveToHostFxRate env)));
              (processorFee, w1) =
                (if payoutMethodType = BANK_ACCOUNT then
                   (if useExistingWiseData \<and> existingQuoteFee env \<noteq> None then
                      (Inr (map_option fromQuote (existingQuoteFee env)), w)
                    else
                      (case quoteExpense env of
                         Inl e \<Rightarrow> (Inl e, w\<lparr>providerCalls := providerCalls w @ [WiseQuote]\<rparr>)
                       | Inr None \<Rightarrow>
                           (Inl (BadRequest
                                   ''Could not find available payment option for this transaction.''),
                            w\<lparr>providerCalls := providerCalls w @ [WiseQuote]\<rparr>)
                       | Inr (Some feeTotal) \<Rightarrow>
                           (Inr (Some (fromQuote feeTotal)),
                            w\<lparr>providerCalls := providerCalls w @ [WiseQuote]\<rparr>)))
                 else if payoutMethodType = PAYPAL then (Inr (Some (paypalFees env)), w)
                 else (Inr (paymentProcessorFeeInCollectiveCurrency fees), w))
          in
          (case processorFee of
             Inl e \<Rightarrow> (Inl e, w1)
           | Inr fee \<Rightarrow>
               let toHost = (\<lambda>v. Some (Math_round (collectiveToHostFxRate env * of_int (orZero v))));
                   feesInHost =
                     \<lparr>paymentProcessorFeeInHostCurrency = toHost fee,
                      hostFeeInHostCurrency = toHost (hostFeeInCollectiveCurrency fees),
                      platformFeeInHostCurrency = toHost (platformFeeInCollectiveCurrency fees)\<rparr>;
                   resultFees =
                     fees\<lparr>paymentProcessorFeeInCollectiveCurrency :=
                            (if orZero fee = 0 then Some 0 else fee)\<rparr>;
                   toExpense =
                     (\<lambda>v. Some (Math_round (of_int (orZero v) * collectiveToExpenseFxRate env)));
                   feesInExpense =
                     (if expenseCurrency expense = collectiveCurrency c then
                        \<lparr>paymentProcessorFee = paymentProcessorFeeInCollectiveCurrency resultFees,
                         hostFee = hostFeeInCollectiveCurrency resultFees,
                         platformFee = platformFeeInCollectiveCurrency resultFees\<rparr>
                      else
                        \<lparr>paymentProcessorFee =
                           toExpense (paymentProcessorFeeInCollectiveCurrency resultFees),
                         hostFee = toExpense (hostFeeInCollectiveCurrency resultFees),
                         platformFee = toExpense (platformFeeInCollectiveCurrency resultFees)\<rparr>)
               in (Inr (resultFees, feesInHost, feesInExpense), w1))))"

definition safeAmountWithStats :: "int \<Rightarrow> rat \<Rightarrow> rat \<Rightarrow> jsnumber" where
  \<comment> \<open>\<^verbatim>\<open>const rate = latestRate - stddev * 2; Math.round(amountToPayInExpenseCurrency / rate)\<close>\<close>
  "safeAmountWithStats amountToPayInExpenseCurrency latestRate stddev =
     (let rate = latestRate - stddev * 2
      in js_round (js_divide (of_int amountToPayInExpenseCurrency) rate))"

definition safeAmountFlat :: "int \<Rightarrow> int" where
  \<comment> \<open>\<^verbatim>\<open>Math.round(amountToPayInExpenseCurrency * 1.2)\<close>\<close>
  "safeAmountFlat amountToPayInExpenseCurrency =
     Math_round (of_int amountToPayInExpenseCurrency * (12 / 10))"

definition notEnoughFunds :: "int option \<Rightarrow> string" where
  \<comment> \<open>the start of defaultErrorMessage; the formatted balance and amounts are left out\<close>
  "notEnoughFunds feesInExpenseCurrency' =
     ''Collective does not have enough funds ''
     @ (if orZero feesInExpenseCurrency' \<noteq> 0
        then ''to cover for the fees of this payment method'' else ''to pay this expense'')"

definition assertMinExpectedBalance ::
  "payEnv \<Rightarrow> bool \<Rightarrow> int \<Rightarrow> int option \<Rightarrow> error + unit" where
  \<comment> \<open>the closure of checkHasBalanceToPayExpense; the second argument is isSameCurrency\<close>
  "assertMinExpectedBalance env isSameCurrency amountToPayInExpenseCurrency feesInExpenseCurrency' =
     (if isSameCurrency then
        (if balanceInCollectiveCurrency env < amountToPayInExpenseCurrency then
           Inl (ValidationFailed (notEnoughFunds feesInExpenseCurrency'))
         else Inr ())
      else
        (case exchangeStats env of
           Some (latestRate, stddev) \<Rightarrow>
             if js_less (balanceInCollectiveCurrency env)
                  (safeAmountWithStats amountToPayInExpenseCurrency latestRate stddev)
             then Inl (ValidationFailed (notEnoughFunds feesInExpenseCurrency'))
             else Inr ()
         | None \<Rightarrow>
             if balanceInCollectiveCurrency env < safeAmountFlat amountToPayInExpenseCurrency
             then Inl (ValidationFailed (notEnoughFunds feesInExpenseCurrency'))
             else Inr ()))"

definition computeTotalAmountToPay :: "ExpenseFeesPayer \<Rightarrow> int \<Rightarrow> int \<Rightarrow> error + int" where
  \<comment> \<open>\<^verbatim>\<open>let totalAmountToPay; if (expense.feesPayer === 'COLLECTIVE') ... else throw\<close>\<close>
  "computeTotalAmountToPay payer expenseAmount processorFee =
     (case payer of
        COLLECTIVE \<Rightarrow> Inr (expenseAmount + processorFee)
      | PAYEE \<Rightarrow> Inr expenseAmount
      | OtherFeesPayer name \<Rightarrow>
          Inl (JsError (''Expense fee payer \"'' @ name @ ''\" not supported yet'')))"

text \<open>The options of \<^verbatim>\<open>checkHasBalanceToPayExpense\<close>, with their defaults made explicit.\<close>

record balanceOptions =
  forceManual :: bool
  manualFees :: FeesArgs
  useExistingWiseData :: bool
  totalAmountPaidInHostCurrency :: "int option"
  optPaymentProcessorFeeInHostCurrency :: "int option"

definition checkFeesPayer :: "payEnv \<Rightarrow> expense \<Rightarrow> PayoutMethodTypes \<Rightarrow> bool \<Rightarrow> error + unit" where
  \<comment> \<open>the two \<^verbatim>\<open>assert\<close>s under \<^verbatim>\<open>if (expense.feesPayer === 'PAYEE')\<close>\<close>
  "checkFeesPayer env expense payoutMethodType isSameCurrency =
     (if feesPayer expense = PAYEE then
        (if \<not> typeSupportsFeesPayer env payoutMethodType then
           Inl (AssertionError ''Putting the payment processor fees on the payee is only supported for bank accounts, manual payouts and stripe at the moment'')
         else if payoutMethodType \<noteq> STRIPE \<and> \<not> isSameCurrency then
           Inl (AssertionError ''Cannot put the payment processor fees on the payee when the expense currency is not the same as the collective currency'')
         else Inr ())
      else Inr ())"

definition checkHasBalanceToPayExpense ::
  "payEnv \<Rightarrow> host option \<Rightarrow> expense \<Rightarrow> PayoutMethod option \<Rightarrow> balanceOptions \<Rightarrow> world
     \<Rightarrow> (error + BalanceCheckResult) \<times> world" where
  "checkHasBalanceToPayExpense env host' expense payoutMethod opts w =
     (case collective expense of
        None \<Rightarrow> (Inl TypeError, w)
      | Some c \<Rightarrow>
          let payoutMethodType =
                (case payoutMethod of Some pm \<Rightarrow> payoutType pm
                 | None \<Rightarrow> payoutMethodTypeFromLegacy env);
              isSameCurrency = (expenseCurrency expense = collectiveCurrency c)
          in
          (case checkFeesPayer env expense payoutMethodType isSameCurrency of
             Inl e \<Rightarrow> (Inl e, w)
           | Inr _ \<Rightarrow>
          if forceManual opts then
            (case totalAmountPaidInHostCurrency opts of
               None \<Rightarrow> (Inl (AssertionError ''Total amount paid must be positive''), w)
             | Some totalPaid \<Rightarrow>
                 if \<not> totalPaid \<ge> 0 then
                   (Inl (AssertionError ''Total amount paid must be positive''), w)
                 else
                   (case host' of
                      None \<Rightarrow> (Inl TypeError, w)
                    | Some h \<Rightarrow>
                        let balanceInHostCurrency =
                              Math_round (of_int (balanceInCollectiveCurrency env)
                                          * collectiveToHostFxRate env)
                        in if expenseType expense \<noteq> SETTLEMENT \<and> balanceInHostCurrency < totalPaid
                           then (Inl (JsError
                                   ''Collective does not have enough funds to pay this expense.''), w)
                           else
                             (Inr \<lparr>feesInCollectiveCurrency =
                                     \<lparr>paymentProcessorFeeInCollectiveCurrency = None,
                                      hostFeeInCollectiveCurrency = None,
                                      platformFeeInCollectiveCurrency = None\<rparr>,
                                   feesInHostCurrency =
                                     \<lparr>paymentProcessorFeeInHostCurrency =
                                        optPaymentProcessorFeeInHostCurrency opts,
                                      hostFeeInHostCurrency = None,
                                      platformFeeInHostCurrency = None\<rparr>,
                                   feesInExpenseCurrency =
                                     \<lparr>paymentProcessorFee = None, hostFee = None,
                                      platformFee = None\<rparr>,
                                   totalAmountToPay = None\<rparr>, w)))
          else
            (case (if expenseType expense \<noteq> SETTLEMENT
                   then assertMinExpectedBalance env isSameCurrency (amount expense) None
                   else Inr ()) of
               Inl e \<Rightarrow> (Inl e, w)
             | Inr _ \<Rightarrow>
            (case getExpenseFees env expense host' (manualFees opts) payoutMethod
                    (useExistingWiseData opts) w of
               (Inl e, w1) \<Rightarrow> (Inl e, w1)
             | (Inr (inCollective, inHost, inExpense), w1) \<Rightarrow>
            (case computeTotalAmountToPay (feesPayer expense) (amount expense)
                    (orZero (paymentProcessorFee inExpense)) of
               Inl e \<Rightarrow> (Inl e, w1)
             | Inr totalToPay \<Rightarrow>
            (case (if expenseType expense \<noteq> SETTLEMENT
                   then assertMinExpectedBalance env isSameCurrency totalToPay
                          (paymentProcessorFee inExpense)
                   else Inr ()) of
               Inl e \<Rightarrow> (Inl e, w1)
             | Inr _ \<Rightarrow>
                 (Inr \<lparr>feesInCollectiveCurrency = inCollective,
                       feesInHostCurrency = inHost,
                       feesInExpenseCurrency = inExpense,
                       totalAmountToPay = Some totalToPay\<rparr>, w1)))))))"

section \<open>Two-factor rolling limit\<close>

definition cache_set :: "nat \<Rightarrow> int \<Rightarrow> world \<Rightarrow> world" where
  "cache_set key v w = w\<lparr>cache := (cache w)(key \<mapsto> v)\<rparr>"

definition validateExpensePayout2FALimit ::
  "payEnv \<Rightarrow> host \<Rightarrow> expense \<Rightarrow> nat \<Rightarrow> world \<Rightarrow> (error + unit) \<times> world" where
  "validateExpensePayout2FALimit env h expense expensePaidAmountKey w =
     (let hostPayoutTwoFactorAuthenticationRollingLimit =
            (case payoutsTwoFactorAuthRollingLimit h of None \<Rightarrow> 1000000 | Some l \<Rightarrow> l);
          currentPaidExpenseAmountCache = cache w expensePaidAmountKey;
          currentPaidExpenseAmount = orZero currentPaidExpenseAmountCache;
          use2FAToken =
            (currentPaidExpenseAmountCache = None
             \<or> currentPaidExpenseAmount + expenseAmountInHostCurrency env
                 > hostPayoutTwoFactorAuthenticationRollingLimit)
      in if \<not> userHasTwoFactorAuthEnabled env then
           (Inl (JsError ''Host has two-factor authentication enabled for large payouts.''), w)
         else
           (case validateRequest env use2FAToken of
              Some e \<Rightarrow> (Inl e, w)
            | None \<Rightarrow>
                if use2FAToken then (Inr (), cache_set expensePaidAmountKey 0 w)
                else (Inr (),
                      cache_set expensePaidAmountKey
                        (currentPaidExpenseAmount + expenseAmountInHostCurrency env) w)))"

section \<open>Paying an expense\<close>

record PayExpenseArgs =
  argsId :: nat
  argsForceManual :: bool
  argsFeesPayer :: "ExpenseFeesPayer option"
  argsPaymentProcessorFeeInHostCurrency :: "int option"
  argsTotalAmountPaidInHostCurrency :: "int option"
  argsManualFees :: FeesArgs
  argsPaymentMethodService :: bool

text \<open>
  How the \<^verbatim>\<open>try\<close> block of payExpense ends: it throws inside the block (the \<^verbatim>\<open>catch\<close>
  clause runs), it returns the promise of payExpenseWithPayPalAdaptive or of
  setTransferWiseExpenseAsProcessing without awaiting it (\<^verbatim>\<open>return f(...)\<close>; a rejection of
  that promise settles the function's own promise and does not pass through the
  \<^verbatim>\<open>catch\<close> clause), or it runs to its end, after which the expense is marked as paid.
\<close>

datatype attempt = Thrown error | ReturnedRejected error | ReturnedExpense expense | Completed

definition recordTransactions :: "expense \<Rightarrow> world \<Rightarrow> world" where
  "recordTransactions e w = w\<lparr>ledger := ledger w @ [expenseId e]\<rparr>"

definition markAsPaid :: "user \<Rightarrow> expense \<Rightarrow> world \<Rightarrow> expense \<times> world" where
  \<comment> \<open>Modelled from the spec: \<^verbatim>\<open>Expense.markAsPaid\<close> (models/Expense is not in the sources):
      the dispatcher must "transition status to PAID"; the source comment adds "create
      activity and send notifications".\<close>
  "markAsPaid u e w =
     (let paid = e\<lparr>status := PAID, lastEditedById := Some (userId u)\<rparr>
      in (paid, createActivity COLLECTIVE_EXPENSE_PAID paid (expense_update paid w)))"

definition setTransferWiseExpenseAsProcessing :: "user \<Rightarrow> host \<Rightarrow> expense \<Rightarrow> world \<Rightarrow> expense \<times> world" where
  \<comment> \<open>\<^verbatim>\<open>expense.update({ HostCollectiveId, data })\<close>, \<^verbatim>\<open>expense.setProcessing\<close> (Modelled from the
      spec: "final state PROCESSING"), and the PROCESSING activity\<close>
  "setTransferWiseExpenseAsProcessing u h e w =
     (let processing = e\<lparr>HostCollectiveId := Some (hostId h), status := PROCESSING,
                           lastEditedById := Some (userId u)\<rparr>
      in (processing,
          createActivity COLLECTIVE_EXPENSE_PROCESSING processing (expense_update processing w)))"

definition throwing :: "error option \<Rightarrow> world \<Rightarrow> (world \<Rightarrow> attempt \<times> world) \<Rightarrow> attempt \<times> world" where
  \<comment> \<open>\<^verbatim>\<open>await f(...)\<close> inside the \<^verbatim>\<open>try\<close> block, for a call that may throw\<close>
  "throwing outcome w continue = (case outcome of Some e \<Rightarrow> (Thrown e, w) | None \<Rightarrow> continue w)"

definition dispatch ::
  "payEnv \<Rightarrow> user \<Rightarrow> PayExpenseArgs \<Rightarrow> host option \<Rightarrow> expense \<Rightarrow> PayoutMethod option
     \<Rightarrow> PayoutMethodTypes \<Rightarrow> world \<Rightarrow> attempt \<times> world" where
  \<comment> \<open>the \<^verbatim>\<open>try\<close> block of payExpense; payExpenseWithPayPalAdaptive is taken as a whole:
      it calls PayPal and either fails or records the transactions and marks the expense paid\<close>
  "dispatch env u args host' expense payoutMethod payoutMethodType w =
     (if argsForceManual args then
        throwing (if argsPaymentMethodService args then findOrCreatePaymentMethod env else None) w
          (\<lambda>w. throwing (createTransactionsForManuallyPaidExpense env) w
            (\<lambda>w. (Completed, recordTransactions expense w)))
      else if payoutMethodType = PAYPAL then
        (case (collective expense, host') of
           (Some c, Some h) \<Rightarrow>
             if collectiveCurrency c \<noteq> hostCurrency h then
               (Thrown (JsError ''PayPal adaptive payouts are not supported when the collective currency is different from the host currency. Please migrate to PayPal payouts: https://docs.opencollective.com/help/fiscal-hosts/payouts/payouts-with-paypal''), w)
             else
               (case payoutMethod of
                  None \<Rightarrow> (Thrown TypeError, w)
                | Some pm \<Rightarrow>
               (case hostPaypalPaymentMethodName env of
                  Some name \<Rightarrow>
                    if payoutEmail pm = name then
                      throwing (createTransactionsFromPaidExpense env) w
                        (\<lambda>w. (Completed, recordTransactions expense w))
                    else
                      (case payExpenseWithPayPalAdaptive env of
                         Some e \<Rightarrow>
                           (ReturnedRejected e,
                            w\<lparr>providerCalls := providerCalls w @ [PayPalAdaptivePay]\<rparr>)
                       | None \<Rightarrow>
                           (case markAsPaid u expense
                                   (recordTransactions expense
                                      (w\<lparr>providerCalls := providerCalls w @ [PayPalAdaptivePay]\<rparr>)) of
                              (paid, w1) \<Rightarrow> (ReturnedExpense paid, w1)))
                | None \<Rightarrow>
                    (Thrown (JsError
                       ''No Paypal account linked, please reconnect Paypal or pay manually''), w)))
         | _ \<Rightarrow> (Thrown TypeError, w))
      else if payoutMethodType = BANK_ACCOUNT then
        (case host' of
           None \<Rightarrow> (Thrown TypeError, w)
         | Some h \<Rightarrow>
             if transferwiseOtt h then
               (Thrown (JsError
                  ''You cannot pay this expense directly without Scheduling it for payment first.''), w)
             else
               throwing (getAccountForPaymentProvider env) w
                 (\<lambda>w. throwing (transferwisePayExpense env)
                         (w\<lparr>providerCalls := providerCalls w @ [WisePayExpense]\<rparr>)
                   (\<lambda>w. case setTransferWiseExpenseAsProcessing u h expense w of
                           (processing, w1) \<Rightarrow> (ReturnedExpense processing, w1))))
      else if payoutMethodType = ACCOUNT_BALANCE then
        (case payeeHostId env of
           None \<Rightarrow>
             (Thrown (JsError
                ''The payee needs to have an Host to able to be paid on its Open Collective balance.''), w)
         | Some payeeHost \<Rightarrow>
             (case host' of
                None \<Rightarrow> (Thrown TypeError, w)
              | Some h \<Rightarrow>
                  if hostId h \<noteq> payeeHost then
                    (Thrown (JsError
                       ''The payee needs to be on the same Host than the payer to be paid on its Open Collective balance.''), w)
                  else
                    throwing (createTransactionsFromPaidExpense env) w
                      (\<lambda>w. (Completed, recordTransactions expense w))))
      else if legacyPayoutMethod expense = ''manual'' \<or> legacyPayoutMethod expense = ''other'' then
        throwing (if argsPaymentMethodService args then findOrCreatePaymentMethod env else None) w
          (\<lambda>w. throwing (createTransactionsFromPaidExpense env) w
            (\<lambda>w. (Completed, recordTransactions expense w)))
      else (Completed, w))"

definition rollbackRollingLimit :: "bool \<Rightarrow> nat \<Rightarrow> int option \<Rightarrow> expense \<Rightarrow> world \<Rightarrow> world" where
  \<comment> \<open>the \<^verbatim>\<open>catch\<close> clause of payExpense, before \<^verbatim>\<open>throw error\<close>; the third argument is
      totalPaidExpensesAmount, the counter read before validateExpensePayout2FALimit ran\<close>
  "rollbackRollingLimit use2FARollingLimit key totalPaidExpensesAmount expense w =
     (if use2FARollingLimit then
        (case totalPaidExpensesAmount of
           None \<Rightarrow> w
         | Some paid \<Rightarrow> if paid \<noteq> 0 then cache_set key (paid - amount expense) w else w)
      else w)"

definition updateFeesPayer :: "PayExpenseArgs \<Rightarrow> expense \<Rightarrow> world \<Rightarrow> expense \<times> world" where
  \<comment> \<open>\<^verbatim>\<open>if (args.feesPayer && args.feesPayer !== expense.feesPayer) { await expense.update(...) }\<close>\<close>
  "updateFeesPayer args expense w =
     (case argsFeesPayer args of
        Some payer \<Rightarrow>
          if payer \<noteq> feesPayer expense
          then (expense\<lparr>feesPayer := payer\<rparr>, expense_update (expense\<lparr>feesPayer := payer\<rparr>) w)
          else (expense, w)
      | None \<Rightarrow> (expense, w))"

definition payExpenseAfterBalanceCheck ::
  "payEnv \<Rightarrow> user \<Rightarrow> PayExpenseArgs \<Rightarrow> host option \<Rightarrow> expense \<Rightarrow> PayoutMethod option
     \<Rightarrow> PayoutMethodTypes \<Rightarrow> world \<Rightarrow> (error + expense) \<times> world" where
  \<comment> \<open>the callback of payExpense from \<^verbatim>\<open>// 2FA for payouts\<close> to its end\<close>
  "payExpenseAfterBalanceCheck env u args host' expense payoutMethod payoutMethodType w =
     (let use2FARollingLimit =
            (payoutMethodType \<in> {PAYPAL, BANK_ACCOUNT} \<and> \<not> argsForceManual args
             \<and> (case host' of None \<Rightarrow> False | Some h \<Rightarrow> payoutsTwoFactorAuthEnabled h));
          totalPaidExpensesAmountKey = userId u;
          totalPaidExpensesAmount =
            (if use2FARollingLimit then cache w totalPaidExpensesAmountKey else None)
      in
      (case (if use2FARollingLimit then
               (case host' of
                  None \<Rightarrow> (Inl TypeError, w)
                | Some h \<Rightarrow>
                    validateExpensePayout2FALimit env h expense totalPaidExpensesAmountKey w)
             else
               (case enforceForAccount env of
                  Some e \<Rightarrow> (Inl e, w)
                | None \<Rightarrow> (Inr (), w))) of
         (Inl e, w3) \<Rightarrow> (Inl e, w3)
       | (Inr _, w3) \<Rightarrow>
           (case dispatch env u args host' expense payoutMethod payoutMethodType w3 of
              (Thrown e, w4) \<Rightarrow>
                (Inl e,
                 rollbackRollingLimit use2FARollingLimit totalPaidExpensesAmountKey
                   totalPaidExpensesAmount expense w4)
            | (ReturnedRejected e, w4) \<Rightarrow> (Inl e, w4)
            | (ReturnedExpense e, w4) \<Rightarrow> (Inr e, w4)
            | (Completed, w4) \<Rightarrow>
                (case markAsPaid u expense w4 of (paid, w5) \<Rightarrow> (Inr paid, w5)))))"

definition payExpenseLocked ::
  "payEnv \<Rightarrow> request \<Rightarrow> user \<Rightarrow> PayExpenseArgs \<Rightarrow> world \<Rightarrow> (error + expense) \<times> world" where
  \<comment> \<open>the callback payExpense passes to lockExpense, up to the balance check\<close>
  "payExpenseLocked env req u args w =
     (case Expenses w (argsId args) of
        None \<Rightarrow> (Inl (NotFound ''Expense not found''), w)
      | Some expense \<Rightarrow>
          if status expense = PAID then
            (Inl (Forbidden ''Expense has already been paid'' None), w)
          else if status expense = PROCESSING then
            (Inl (Forbidden ''Expense is currently being processed, this means someone already started the payment process'' None), w)
          else if status expense \<noteq> APPROVED \<and> status expense \<noteq> ERROR then
            (Inl (Forbidden (''Expense needs to be approved. Current status of the expense: ''
                             @ statusName (status expense) @ ''.'') None), w)
          else
            (case canPayExpense req expense False of
               Inl e \<Rightarrow> (Inl e, w)
             | Inr False \<Rightarrow>
                 (Inl (Forbidden ''You don't have permission to pay this expense'' None), w)
             | Inr True \<Rightarrow>
            (case collective expense of
               None \<Rightarrow> (Inl TypeError, w)
             | Some c \<Rightarrow>
                 let host' = hostCollective env in
                 if expenseCurrency expense \<noteq> collectiveCurrency c
                    \<and> \<not> hasMultiCurrency (collectiveCurrency c) (map_option hostCurrency host')
                 then (Inl (Forbidden
                              ''Multi-currency expenses are not enabled for this collective'' None), w)
                 else if legacyPayoutMethod expense = ''donation'' then
                   (Inl (JsError ''\"In kind\" donations are not supported anymore''), w)
                 else
                   (case updateFeesPayer args expense w of
                      (expense1, w1) \<Rightarrow>
                   let payoutMethod = payoutMethodOfExpense env;
                       payoutMethodType =
                         (case payoutMethod of Some pm \<Rightarrow> payoutType pm
                          | None \<Rightarrow> payoutMethodTypeFromLegacy env)
                   in
                   (case checkHasBalanceToPayExpense env host' expense1 payoutMethod
                           \<lparr>forceManual = argsForceManual args,
                            manualFees = argsManualFees args,
                            useExistingWiseData = False,
                            totalAmountPaidInHostCurrency = argsTotalAmountPaidInHostCurrency args,
                            optPaymentProcessorFeeInHostCurrency =
                              Some (orZero (argsPaymentProcessorFeeInHostCurrency args))\<rparr> w1 of
                      (Inl e, w2) \<Rightarrow> (Inl e, w2)
                    | (Inr fees, w2) \<Rightarrow>
                        payExpenseAfterBalanceCheck env u args host' expense1 payoutMethod
                          payoutMethodType w2)))))"

definition payExpense ::
  "payEnv \<Rightarrow> request \<Rightarrow> PayExpenseArgs \<Rightarrow> world \<Rightarrow> (error + expense) \<times> world" where
  "payExpense env req args w =
     (case remoteUser req of
        None \<Rightarrow> (Inl (Unauthorized ''You need to be logged in to pay an expense''), w)
      | Some u \<Rightarrow>
          if \<not> canUseFeature_USE_EXPENSES req then (Inl FeatureNotAllowedForUser, w)
          else lockExpense (argsId args) (payExpenseLocked env req u args) w)"

section \<open>Statement helpers and example inputs\<close>

definition notPayable :: "ExpenseStatus \<Rightarrow> error" where
  \<comment> \<open>the error of the three status tests of payExpense, as a function of the status\<close>
  "notPayable st =
     Forbidden
       (if st = PAID then ''Expense has already been paid''
        else if st = PROCESSING then
          ''Expense is currently being processed, this means someone already started the payment process''
        else ''Expense needs to be approved. Current status of the expense: '' @ statusName st @ ''.'')
       None"

text \<open>
  One payer account (3) hosted by host 9, one expense (1) of 10000 USD submitted by user 5,
  a collective admin (user 7), a host admin (user 8) and a request without user or scope.
\<close>

definition noPolicy :: policy where
  "noPolicy = \<lparr>enabled = False, amountInCents = 0, appliesToHostedCollectives = False,
     appliesToSingleAdminCollectives = False\<rparr>"


definition coll3 :: collective where
  "coll3 = \<lparr>collectiveId = 3, collectiveCurrency = ''USD'', collectiveHostCollectiveId = Some 9,
     isActive = True, hostPolicy = noPolicy, collectivePolicy = noPolicy,
     collectiveAdminCount = 2\<rparr>"

definition exp1 :: "ExpenseStatus \<Rightarrow> expense" where
  "exp1 st = \<lparr>expenseId = 1, status = st, expenseType = INVOICE, amount = 10000,
     expenseCurrency = ''USD'', feesPayer = COLLECTIVE, UserId = 5, lastEditedById = None,
     HostCollectiveId = None, collective = Some coll3, legacyPayoutMethod = ''other'',
     isLocked = False, RecurringExpenseId = Some 4, description = ''Flight'',
     lockedFields = Some [LOCK_AMOUNT], dataPayee = Some (PayeeWithId 5), FromCollectiveId = 5,
     fromCollectiveIsVendor = False, VirtualCardId = None\<rparr>"

definition world1 :: "expense \<Rightarrow> int option \<Rightarrow> world" where
  "world1 e counter = \<lparr>Expenses = [1 \<mapsto> e], activities = [], limitedFeature_USE_EXPENSES = {},
     RecurringExpenses = {4}, spamNotifications = [],
     cache = (\<lambda>k. if k = 8 then counter else None), providerCalls = [], ledger = []\<rparr>"

definition admin7 :: user where
  "admin7 = \<lparr>userId = 7, isAdmin = (\<lambda>a. False), isAdminOfCollective = (\<lambda>a. a = 3),
     isAdminOfPlatform = False\<rparr>"

definition hostAdmin8 :: user where
  "hostAdmin8 = \<lparr>userId = 8, isAdmin = (\<lambda>a. a = 9), isAdminOfCollective = (\<lambda>a. False),
     isAdminOfPlatform = False\<rparr>"

definition anonymous :: request where
  "anonymous = \<lparr>remoteUser = None, checkScope_expenses = False,
     canUseFeature_USE_EXPENSES = False\<rparr>"

definition reqAdmin7 :: request where
  "reqAdmin7 = \<lparr>remoteUser = Some admin7, checkScope_expenses = True,
     canUseFeature_USE_EXPENSES = True\<rparr>"

definition reqHostAdmin :: request where
  "reqHostAdmin = \<lparr>remoteUser = Some hostAdmin8, checkScope_expenses = True,
     canUseFeature_USE_EXPENSES = True\<rparr>"

definition spammed :: expense where
  "spammed = (exp1 REJECTED)\<lparr>status := SPAM, lastEditedById := Some 7\<rparr>"

definition worldSpam :: world where
  "worldSpam = \<lparr>Expenses = [1 \<mapsto> spammed],
     activities = [(COLLECTIVE_EXPENSE_MARKED_AS_SPAM, 1)], limitedFeature_USE_EXPENSES = {5},
     RecurringExpenses = {}, spamNotifications = [1], cache = (\<lambda>k. None), providerCalls = [],
     ledger = []\<rparr>"

definition host9 :: host where
  "host9 = \<lparr>hostId = 9, hostCurrency = ''USD'', payoutsTwoFactorAuthEnabled = True,
     payoutsTwoFactorAuthRollingLimit = None, transferwiseOtt = False\<rparr>"

definition noFees :: FeesArgs where
  "noFees = \<lparr>paymentProcessorFeeInCollectiveCurrency = None, hostFeeInCollectiveCurrency = None,
     platformFeeInCollectiveCurrency = None\<rparr>"

text \<open>
  A run in which the payer holds \<open>bal\<close>, the payout method has type \<open>t\<close>, Wise quotes a fee
  of 5.00 and then fails the transfer, and every other collaborator succeeds.
\<close>

definition env1 :: "int \<Rightarrow> PayoutMethodTypes \<Rightarrow> payEnv" where
  "env1 bal t = \<lparr>balanceInCollectiveCurrency = bal, collectiveToHostFxRate = 1,
     collectiveToExpenseFxRate = 1, exchangeStats = None,
     typeSupportsFeesPayer = (\<lambda>t. t = BANK_ACCOUNT \<or> t = OTHER \<or> t = STRIPE),
     payoutMethodTypeFromLegacy = OTHER,
     floatAmountToCents = (\<lambda>n. case n of Finite x \<Rightarrow> Math_round (x * 100) | _ \<Rightarrow> 0),
     existingQuoteFee = None, quoteExpense = Inr (Some 5), paypalFees = 0,
     hostCollective = Some host9,
     payoutMethodOfExpense = Some \<lparr>payoutType = t, payoutEmail = ''payee@example.org''\<rparr>,
     userHasTwoFactorAuthEnabled = True, validateRequest = (\<lambda>ask. None),
     enforceForAccount = None, expenseAmountInHostCurrency = 100,
     findOrCreatePaymentMethod = None, createTransactionsForManuallyPaidExpense = None,
     createTransactionsFromPaidExpense = None, hostPaypalPaymentMethodName = None,
     payExpenseWithPayPalAdaptive = None, getAccountForPaymentProvider = None,
     transferwisePayExpense = Some (ExternalError ''Wise transfer failed''),
     payeeHostId = None\<rparr>"

definition args1 :: "bool \<Rightarrow> PayExpenseArgs" where
  "args1 manual = \<lparr>argsId = 1, argsForceManual = manual, argsFeesPayer = None,
     argsPaymentProcessorFeeInHostCurrency = None, argsTotalAmountPaidInHostCurrency = Some 10000,
     argsManualFees = noFees, argsPaymentMethodService = False\<rparr>"




definition settlement1 :: expense where
  "settlement1 = (exp1 APPROVED)\<lparr>expenseType := SETTLEMENT\<rparr>"

definition failingCallback :: "world \<Rightarrow> (error + expense) \<times> world" where
  "failingCallback w = (Inl (ExternalError ''provider down''), w)"






definition lockedExpense :: expense where
  "lockedExpense = (exp1 APPROVED)\<lparr>isLocked := True\<rparr>"

definition paidExpense :: expense where
  "paidExpense = (exp1 APPROVED)\<lparr>status := PAID, lastEditedById := Some 8, isLocked := True\<rparr>"


definition smallExpense :: expense where
  "smallExpense = (exp1 APPROVED)\<lparr>amount := 100\<rparr>"

definition item :: "int \<Rightarrow> ExpenseItem" where
  "item a = \<lparr>itemAmount = Some a, itemDescription = Some ''Ticket'', url = None,
     expenseCurrencyFxRate = None\<rparr>"







section \<open>Status actions: verified properties\<close>

text \<open>
  C9. Each status action returns the expense unchanged when it already is at the action's
  destination status: approveExpense at APPROVED, unapproveExpense at PENDING,
  rejectExpense at REJECTED and markExpenseAsSpam at SPAM. The return comes before the
  permission evaluator runs, so it holds for every request (also one that the evaluator
  would refuse), and the world is left as it was: no row written, no activity created.
\<close>

theorem idempotent_at_destination:
  "(status expense = APPROVED \<longrightarrow> approveExpense req expense w = (Inr expense, w)) \<and>
   (status expense = PENDING \<longrightarrow> unapproveExpense req expense w = (Inr expense, w)) \<and>
   (status expense = REJECTED \<longrightarrow> rejectExpense req expense w = (Inr expense, w)) \<and>
   (status expense = SPAM \<longrightarrow> markExpenseAsSpam req expense w = (Inr expense, w))"
  by (simp add: approveExpense_def unapproveExpense_def rejectExpense_def statusAction_def
        markExpenseAsSpam_def)

theorem idempotent_at_destination_witness:
  "status (exp1 APPROVED) = APPROVED
   \<and> approveExpense anonymous (exp1 APPROVED) (world1 (exp1 APPROVED) None)
       = (Inr (exp1 APPROVED), world1 (exp1 APPROVED) None)
   \<and> canApprove anonymous (exp1 APPROVED) True
       = Inl (Forbidden ''You do not have the necessary scope to perform this action''
                (Some INVALID_SCOPE))
   \<and> status (exp1 PENDING) = PENDING
   \<and> unapproveExpense anonymous (exp1 PENDING) (world1 (exp1 PENDING) None)
       = (Inr (exp1 PENDING), world1 (exp1 PENDING) None)
   \<and> status (exp1 REJECTED) = REJECTED
   \<and> rejectExpense anonymous (exp1 REJECTED) (world1 (exp1 REJECTED) None)
       = (Inr (exp1 REJECTED), world1 (exp1 REJECTED) None)
   \<and> status (exp1 SPAM) = SPAM
   \<and> markExpenseAsSpam anonymous (exp1 SPAM) (world1 (exp1 SPAM) None)
       = (Inr (exp1 SPAM), world1 (exp1 SPAM) None)"
  using idempotent_at_destination [of "exp1 APPROVED" anonymous "world1 (exp1 APPROVED) None"]
    idempotent_at_destination [of "exp1 PENDING" anonymous "world1 (exp1 PENDING) None"]
    idempotent_at_destination [of "exp1 REJECTED" anonymous "world1 (exp1 REJECTED) None"]
    idempotent_at_destination [of "exp1 SPAM" anonymous "world1 (exp1 SPAM) None"]
  by (simp add: exp1_def canApprove_def validateExpenseScope_def anonymous_def)


lemma canMarkAsSpam_True:
  "canMarkAsSpam req expense throw = Inr True \<Longrightarrow>
     status expense = REJECTED \<and> UserId expense \<noteq> PlatformUserId \<and> remoteUser req \<noteq> None"
  by (auto simp: canMarkAsSpam_def validateExpenseScope_def missingScope_def refuse_def
        remoteUserMeetsOneCondition_def split: if_splits sum.splits bool.splits option.splits)

lemma markExpenseAsSpam_success:
  assumes "status expense \<noteq> SPAM" and "markExpenseAsSpam req expense w = (Inr e', w')"
  shows "status expense = REJECTED \<and> UserId expense \<noteq> PlatformUserId \<and>
      status e' = SPAM \<and> Expenses w' (expenseId expense) = Some e' \<and>
      UserId expense \<in> limitedFeature_USE_EXPENSES w' \<and>
      (\<forall>r. RecurringExpenseId expense = Some r \<longrightarrow> r \<notin> RecurringExpenses w')"
proof -
  from assms have ok: "canMarkAsSpam req expense True = Inr True"
    by (auto simp: markExpenseAsSpam_def split: sum.splits bool.splits)
  then obtain u where u: "remoteUser req = Some u"
    using canMarkAsSpam_True by fastforce
  from assms ok u show ?thesis
    using canMarkAsSpam_True [OF ok]
    by (auto simp: markExpenseAsSpam_def Let_def expense_update_def limitFeature_def
          destroyRecurringExpense_def createActivity_def notifyTeamAboutSpamExpense_def
          split: option.splits if_splits)
qed

lemma markExpenseAsSpam_refused:
  assumes "status expense \<notin> {REJECTED, SPAM} \<or>
           (status expense = REJECTED \<and> UserId expense = PlatformUserId)"
  shows "\<exists>e. markExpenseAsSpam req expense w = (Inl e, w)"
proof -
  from assms have "canMarkAsSpam req expense True \<noteq> Inr True"
    using canMarkAsSpam_True by blast
  moreover from assms have "status expense \<noteq> SPAM" by auto
  ultimately show ?thesis
    by (auto simp: markExpenseAsSpam_def split: sum.splits bool.splits)
qed

text \<open>
  C7. When markExpenseAsSpam changes anything (the expense was not already SPAM) and
  succeeds, the expense was REJECTED and was not submitted by the platform user; the
  stored expense then has status SPAM, the submitter's USE_EXPENSES feature is limited,
  and the recurring-expense record linked to the expense no longer exists. For any other
  status, and for a REJECTED expense of the platform user, the call fails and writes
  nothing.
\<close>

theorem markExpenseAsSpam_spec:
  "(status expense \<noteq> SPAM \<and> markExpenseAsSpam req expense w = (Inr e', w') \<longrightarrow>
      status expense = REJECTED \<and> UserId expense \<noteq> PlatformUserId \<and>
      status e' = SPAM \<and> Expenses w' (expenseId expense) = Some e' \<and>
      UserId expense \<in> limitedFeature_USE_EXPENSES w' \<and>
      (\<forall>r. RecurringExpenseId expense = Some r \<longrightarrow> r \<notin> RecurringExpenses w')) \<and>
   (status expense \<notin> {REJECTED, SPAM} \<or>
    (status expense = REJECTED \<and> UserId expense = PlatformUserId) \<longrightarrow>
      (\<exists>e. markExpenseAsSpam req expense w = (Inl e, w)))"
  using markExpenseAsSpam_success markExpenseAsSpam_refused by blast

lemma markExpenseAsSpam_run:
  "markExpenseAsSpam reqAdmin7 (exp1 REJECTED) (world1 (exp1 REJECTED) None)
     = (Inr spammed, worldSpam)"
  by (simp add: markExpenseAsSpam_def canMarkAsSpam_def validateExpenseScope_def reqAdmin7_def
        exp1_def PlatformUserId_def remoteUserMeetsOneCondition_def isCollectiveAdmin_def
        admin7_def coll3_def Let_def expense_update_def limitFeature_def
        destroyRecurringExpense_def createActivity_def notifyTeamAboutSpamExpense_def
        world1_def spammed_def worldSpam_def)

theorem markExpenseAsSpam_spec_witness:
  "status (exp1 REJECTED) \<noteq> SPAM \<and>
   markExpenseAsSpam reqAdmin7 (exp1 REJECTED) (world1 (exp1 REJECTED) None)
     = (Inr spammed, worldSpam) \<and>
   status spammed = SPAM \<and> Expenses worldSpam 1 = Some spammed \<and>
   5 \<in> limitedFeature_USE_EXPENSES worldSpam \<and> 4 \<notin> RecurringExpenses worldSpam \<and>
   status (exp1 PAID) \<notin> {REJECTED, SPAM} \<and>
   (\<exists>e. markExpenseAsSpam reqAdmin7 (exp1 PAID) (world1 (exp1 PAID) None)
          = (Inl e, world1 (exp1 PAID) None))"
  using markExpenseAsSpam_spec
          [of "exp1 REJECTED" reqAdmin7 "world1 (exp1 REJECTED) None" spammed worldSpam]
    markExpenseAsSpam_spec
          [of "exp1 PAID" reqAdmin7 "world1 (exp1 PAID) None" spammed worldSpam]
    markExpenseAsSpam_run
  by (simp add: exp1_def spammed_def worldSpam_def)




section \<open>Soft lock: verified properties\<close>

lemma lockExpense_busy:
  "Expenses w i = Some e \<Longrightarrow> isLocked e \<Longrightarrow>
     lockExpense i callback w =
       (Inl (JsError ''This expense is already been processed, please try again later''), w)"
  by (simp add: lockExpense_def)

lemma lockExpense_runs:
  "Expenses w i = Some e \<Longrightarrow> \<not> isLocked e \<Longrightarrow>
   callback (expense_update (e\<lparr>isLocked := True\<rparr>) w) = (r, w2) \<Longrightarrow> Expenses w2 i = Some e2 \<Longrightarrow>
     lockExpense i callback w = (r, expense_update (e2\<lparr>isLocked := False\<rparr>) w2)"
  by (simp add: lockExpense_def)

text \<open>
  C4. For an expense row that exists: when its isLocked flag is set, lockExpense fails at
  once with the "already been processed, please try again later" error, without running
  the callback and without writing; otherwise the callback runs on a world in which the
  row's flag is set, and afterwards the flag of the reloaded row is cleared, whatever
  the callback's outcome \<open>r\<close> was (a value or an error), and that outcome is passed on
  unchanged. (The row must still exist when the callback is over: the release reloads it.)
\<close>

theorem lockExpense_spec:
  "(Expenses w i = Some e \<and> isLocked e \<longrightarrow>
      lockExpense i callback w =
        (Inl (JsError ''This expense is already been processed, please try again later''), w)) \<and>
   (Expenses w i = Some e \<and> expenseId e = i \<and> \<not> isLocked e \<and>
    callback (expense_update (e\<lparr>isLocked := True\<rparr>) w) = (r, w2) \<and>
    Expenses w2 i = Some e2 \<and> expenseId e2 = i \<longrightarrow>
      Expenses (expense_update (e\<lparr>isLocked := True\<rparr>) w) i = Some (e\<lparr>isLocked := True\<rparr>) \<and>
      lockExpense i callback w = (r, expense_update (e2\<lparr>isLocked := False\<rparr>) w2) \<and>
      Expenses (snd (lockExpense i callback w)) i = Some (e2\<lparr>isLocked := False\<rparr>))"
  by (auto simp: lockExpense_busy lockExpense_runs expense_update_def)

theorem lockExpense_spec_witness:
  "Expenses (world1 lockedExpense None) 1 = Some lockedExpense \<and> isLocked lockedExpense \<and>
   lockExpense 1 failingCallback (world1 lockedExpense None)
     = (Inl (JsError ''This expense is already been processed, please try again later''),
        world1 lockedExpense None) \<and>
   Expenses (world1 (exp1 APPROVED) None) 1 = Some (exp1 APPROVED) \<and>
   \<not> isLocked (exp1 APPROVED) \<and>
   fst (lockExpense 1 failingCallback (world1 (exp1 APPROVED) None))
     = Inl (ExternalError ''provider down'') \<and>
   Expenses (snd (lockExpense 1 failingCallback (world1 (exp1 APPROVED) None))) 1
     = Some (exp1 APPROVED)"
  using lockExpense_spec
          [where w = "world1 lockedExpense None" and i = 1 and e = lockedExpense
             and callback = failingCallback]
    lockExpense_spec
          [where w = "world1 (exp1 APPROVED) None" and i = 1 and e = "exp1 APPROVED"
             and callback = failingCallback and r = "Inl (ExternalError ''provider down'')"
             and ?w2.0 = "expense_update ((exp1 APPROVED)\<lparr>isLocked := True\<rparr>)
                            (world1 (exp1 APPROVED) None)"
             and ?e2.0 = "(exp1 APPROVED)\<lparr>isLocked := True\<rparr>"]
  by (simp add: failingCallback_def world1_def exp1_def lockedExpense_def expense_update_def)

section \<open>Balance check: verified properties\<close>




lemma isHostAdmin_isLocked: "isHostAdmin req (e\<lparr>isLocked := b\<rparr>) = isHostAdmin req e"
  by (simp add: isHostAdmin_def split: option.splits)

lemma canPayExpense_isLocked:
  "canPayExpense req (e\<lparr>isLocked := b\<rparr>) t = canPayExpense req e t"
  by (simp add: canPayExpense_def remoteUserMeetsOneCondition_def isHostAdmin_isLocked
        split: sum.splits bool.splits option.splits)

lemma assertMinExpectedBalance_error:
  "assertMinExpectedBalance env same a f = Inl err \<Longrightarrow> err = ValidationFailed (notEnoughFunds f)"
  by (auto simp: assertMinExpectedBalance_def split: if_splits option.splits)

lemma payExpenseLocked_success_status:
  "payExpenseLocked env req u args w = (Inr e, w') \<Longrightarrow>
     \<exists>x. Expenses w (argsId args) = Some x \<and> status x \<in> {APPROVED, ERROR}"
  by (cases "Expenses w (argsId args)") (auto simp: payExpenseLocked_def split: if_splits)

lemma payExpense_success_status:
  assumes "payExpense env req args w = (Inr e, w')"
  shows "\<exists>x. Expenses w (argsId args) = Some x \<and> status x \<in> {APPROVED, ERROR}"
proof -
  from assms obtain u where u: "remoteUser req = Some u"
    and run: "lockExpense (argsId args) (payExpenseLocked env req u args) w = (Inr e, w')"
    by (auto simp: payExpense_def split: option.splits if_splits)
  from run obtain x where x: "Expenses w (argsId args) = Some x" and nl: "\<not> isLocked x"
    by (auto simp: lockExpense_def split: option.splits if_splits)
  let ?w1 = "expense_update (x\<lparr>isLocked := True\<rparr>) w"
  obtain r w2 where cb: "payExpenseLocked env req u args ?w1 = (r, w2)"
    by (cases "payExpenseLocked env req u args ?w1")
  with run x nl have "r = Inr e"
    by (auto simp: lockExpense_def split: option.splits)
  with cb obtain y where y: "Expenses ?w1 (argsId args) = Some y" "status y \<in> {APPROVED, ERROR}"
    using payExpenseLocked_success_status by blast
  then have "status y = status x"
    using x by (auto simp: expense_update_def split: if_splits)
  with x y show ?thesis by simp
qed

lemma payExpense_wrong_status:
  assumes "remoteUser req = Some u" "canUseFeature_USE_EXPENSES req"
    and "Expenses w (argsId args) = Some x" "expenseId x = argsId args" "\<not> isLocked x"
    and "status x \<notin> {APPROVED, ERROR}"
  shows "payExpense env req args w = (Inl (notPayable (status x)), w)"
proof -
  let ?x1 = "x\<lparr>isLocked := True\<rparr>"
  let ?w1 = "expense_update ?x1 w"
  have look: "Expenses ?w1 (argsId args) = Some ?x1"
    using assms by (simp add: expense_update_def)
  have cb: "payExpenseLocked env req u args ?w1 = (Inl (notPayable (status x)), ?w1)"
    using assms look by (auto simp: payExpenseLocked_def notPayable_def)
  have restored: "expense_update (?x1\<lparr>isLocked := False\<rparr>) ?w1 = w"
    using assms by (simp add: expense_update_def map_upd_triv)
  have "lockExpense (argsId args) (payExpenseLocked env req u args) w
          = (Inl (notPayable (status x)), expense_update (?x1\<lparr>isLocked := False\<rparr>) ?w1)"
    using assms(3,5) cb look by (rule lockExpense_runs)
  with assms restored show ?thesis
    by (simp add: payExpense_def)
qed

lemma payExpense_insufficient:
  assumes u: "remoteUser req = Some u" "canUseFeature_USE_EXPENSES req"
    and x: "Expenses w (argsId args) = Some x" "expenseId x = argsId args" "\<not> isLocked x"
    and st: "status x \<in> {APPROVED, ERROR}"
    and perm: "canPayExpense req x False = Inr True"
    and c: "collective x = Some c"
    and cur: "expenseCurrency x = collectiveCurrency c
              \<or> hasMultiCurrency (collectiveCurrency c) (map_option hostCurrency (hostCollective env))"
    and don: "legacyPayoutMethod x \<noteq> ''donation''"
    and man: "\<not> argsForceManual args"
    and ty: "expenseType x \<noteq> SETTLEMENT"
    and payer: "(case argsFeesPayer args of Some p \<Rightarrow> p | None \<Rightarrow> feesPayer x) \<noteq> PAYEE"
    and short: "assertMinExpectedBalance env (expenseCurrency x = collectiveCurrency c) (amount x) None
                  = Inl err"
  shows "\<exists>v. payExpense env req args w = (Inl err, v) \<and>
           err = ValidationFailed (notEnoughFunds None) \<and>
           providerCalls v = providerCalls w \<and> ledger v = ledger w \<and>
           activities v = activities w \<and> cache v = cache w \<and>
           (\<exists>x'. Expenses v (argsId args) = Some x' \<and> status x' = status x \<and> \<not> isLocked x')"
proof -
  let ?x1 = "x\<lparr>isLocked := True\<rparr>"
  let ?w1 = "expense_update ?x1 w"
  have look: "Expenses ?w1 (argsId args) = Some ?x1"
    using x by (simp add: expense_update_def)
  have perm1: "canPayExpense req ?x1 False = Inr True"
    using perm by (simp add: canPayExpense_isLocked)
  obtain x2 w1' where upd: "updateFeesPayer args ?x1 ?w1 = (x2, w1')"
    by (cases "updateFeesPayer args ?x1 ?w1")
  then have x2: "feesPayer x2 \<noteq> PAYEE" "collective x2 = Some c" "expenseType x2 = expenseType x"
      "expenseCurrency x2 = expenseCurrency x" "amount x2 = amount x"
    and w1': "providerCalls w1' = providerCalls w" "ledger w1' = ledger w"
      "activities w1' = activities w" "cache w1' = cache w"
    and y: "\<exists>y. Expenses w1' (argsId args) = Some y \<and> status y = status x
                \<and> expenseId y = argsId args"
    using payer c x
    by (auto simp: updateFeesPayer_def expense_update_def split: option.splits if_splits)
  have bal: "checkHasBalanceToPayExpense env (hostCollective env) x2 (payoutMethodOfExpense env)
               \<lparr>forceManual = argsForceManual args, manualFees = argsManualFees args,
                useExistingWiseData = False,
                totalAmountPaidInHostCurrency = argsTotalAmountPaidInHostCurrency args,
                optPaymentProcessorFeeInHostCurrency =
                  Some (orZero (argsPaymentProcessorFeeInHostCurrency args))\<rparr> w1' = (Inl err, w1')"
    using x2 man ty short
    by (simp add: checkHasBalanceToPayExpense_def checkFeesPayer_def Let_def)
  have cb: "payExpenseLocked env req u args ?w1 = (Inl err, w1')"
    using st look perm1 c cur don upd bal
    by (auto simp: payExpenseLocked_def Let_def)
  from y obtain y where y: "Expenses w1' (argsId args) = Some y" "status y = status x"
      "expenseId y = argsId args"
    by blast
  have run: "lockExpense (argsId args) (payExpenseLocked env req u args) w
               = (Inl err, expense_update (y\<lparr>isLocked := False\<rparr>) w1')"
    using x(1,3) cb y(1) by (rule lockExpense_runs)
  with u y w1' assertMinExpectedBalance_error [OF short] show ?thesis
    by (auto simp: payExpense_def expense_update_def)
qed

section \<open>Paying an expense: verified properties\<close>

text \<open>
  C3, as the code has it. payExpense returns an expense only if the stored status was
  APPROVED or ERROR. For a logged-in user allowed to use expenses and an existing,
  unlocked expense row: at any other status the call fails with Forbidden (a message of
  its own for PAID and for PROCESSING) and leaves the world as it was; and when the
  expense is not of type SETTLEMENT, the call is not forceManual, the fees are not put on
  the payee, the permission, currency and donation tests pass, and the balance does not
  cover the expense amount (the check made before fees are estimated), the call fails
  with ValidationFailed, no provider was called, no transaction and no activity was
  created, the rolling counter is untouched, and the stored expense keeps its status and
  is unlocked again. In the same currency, "does not cover" is balance < amount.
\<close>

theorem payExpense_guards:
  "(payExpense env req args w = (Inr e, w') \<longrightarrow>
      (\<exists>x. Expenses w (argsId args) = Some x \<and> status x \<in> {APPROVED, ERROR})) \<and>
   (remoteUser req = Some u \<and> canUseFeature_USE_EXPENSES req \<and>
    Expenses w (argsId args) = Some x \<and> expenseId x = argsId args \<and> \<not> isLocked x \<longrightarrow>
      (status x \<notin> {APPROVED, ERROR} \<longrightarrow>
         payExpense env req args w = (Inl (notPayable (status x)), w)) \<and>
      (status x \<in> {APPROVED, ERROR} \<and> canPayExpense req x False = Inr True \<and>
       collective x = Some c \<and>
       (expenseCurrency x = collectiveCurrency c
        \<or> hasMultiCurrency (collectiveCurrency c) (map_option hostCurrency (hostCollective env))) \<and>
       legacyPayoutMethod x \<noteq> ''donation'' \<and> \<not> argsForceManual args \<and>
       expenseType x \<noteq> SETTLEMENT \<and>
       (case argsFeesPayer args of Some p \<Rightarrow> p | None \<Rightarrow> feesPayer x) \<noteq> PAYEE \<and>
       assertMinExpectedBalance env (expenseCurrency x = collectiveCurrency c) (amount x) None
         = Inl err \<longrightarrow>
         (\<exists>v. payExpense env req args w = (Inl err, v) \<and>
           err = ValidationFailed (notEnoughFunds None) \<and>
           providerCalls v = providerCalls w \<and> ledger v = ledger w \<and>
           activities v = activities w \<and> cache v = cache w \<and>
           (\<exists>x'. Expenses v (argsId args) = Some x' \<and> status x' = status x
                  \<and> \<not> isLocked x')))) \<and>
   (balanceInCollectiveCurrency env < a \<longrightarrow>
      assertMinExpectedBalance env True a f = Inl (ValidationFailed (notEnoughFunds f)))"
proof (intro conjI impI)
  show "\<exists>x. Expenses w (argsId args) = Some x \<and> status x \<in> {APPROVED, ERROR}"
    if "payExpense env req args w = (Inr e, w')"
    using that by (rule payExpense_success_status)
  show "assertMinExpectedBalance env True a f = Inl (ValidationFailed (notEnoughFunds f))"
    if "balanceInCollectiveCurrency env < a"
    using that by (simp add: assertMinExpectedBalance_def)
next
  assume h: "remoteUser req = Some u \<and> canUseFeature_USE_EXPENSES req \<and>
    Expenses w (argsId args) = Some x \<and> expenseId x = argsId args \<and> \<not> isLocked x"
  show "payExpense env req args w = (Inl (notPayable (status x)), w)"
    if "status x \<notin> {APPROVED, ERROR}"
    using h that payExpense_wrong_status by blast
  show "\<exists>v. payExpense env req args w = (Inl err, v) \<and>
           err = ValidationFailed (notEnoughFunds None) \<and>
           providerCalls v = providerCalls w \<and> ledger v = ledger w \<and>
           activities v = activities w \<and> cache v = cache w \<and>
           (\<exists>x'. Expenses v (argsId args) = Some x' \<and> status x' = status x \<and> \<not> isLocked x')"
    if "status x \<in> {APPROVED, ERROR} \<and> canPayExpense req x False = Inr True \<and>
       collective x = Some c \<and>
       (expenseCurrency x = collectiveCurrency c
        \<or> hasMultiCurrency (collectiveCurrency c) (map_option hostCurrency (hostCollective env))) \<and>
       legacyPayoutMethod x \<noteq> ''donation'' \<and> \<not> argsForceManual args \<and>
       expenseType x \<noteq> SETTLEMENT \<and>
       (case argsFeesPayer args of Some p \<Rightarrow> p | None \<Rightarrow> feesPayer x) \<noteq> PAYEE \<and>
       assertMinExpectedBalance env (expenseCurrency x = collectiveCurrency c) (amount x) None
         = Inl err"
    using h that payExpense_insufficient [of req u w args x c env err] by blast
qed

theorem payExpense_guards_witness:
  "fst (payExpense (env1 50000 OTHER) reqHostAdmin (args1 False) (world1 (exp1 APPROVED) None))
     = Inr paidExpense \<and>
   (\<exists>x. Expenses (world1 (exp1 APPROVED) None) 1 = Some x \<and> status x \<in> {APPROVED, ERROR}) \<and>
   payExpense (env1 50000 OTHER) reqHostAdmin (args1 False) (world1 (exp1 PAID) None)
     = (Inl (Forbidden ''Expense has already been paid'' None), world1 (exp1 PAID) None) \<and>
   balanceInCollectiveCurrency (env1 5000 BANK_ACCOUNT) < amount (exp1 APPROVED) \<and>
   (\<exists>v. payExpense (env1 5000 BANK_ACCOUNT) reqHostAdmin (args1 False)
           (world1 (exp1 APPROVED) None)
         = (Inl (ValidationFailed ''Collective does not have enough funds to pay this expense''), v) \<and>
        providerCalls v = [] \<and> ledger v = [] \<and> activities v = [] \<and>
        (\<exists>x'. Expenses v 1 = Some x' \<and> status x' = APPROVED \<and> \<not> isLocked x'))"
proof -
  let ?ok = "payExpense (env1 50000 OTHER) reqHostAdmin (args1 False) (world1 (exp1 APPROVED) None)"
  have paid: "fst ?ok = Inr paidExpense"
    by code_simp
  then have run: "?ok = (Inr paidExpense, snd ?ok)"
    by (metis prod.collapse)
  have row: "remoteUser reqHostAdmin = Some hostAdmin8 \<and> canUseFeature_USE_EXPENSES reqHostAdmin"
    "argsId (args1 False) = 1" "\<not> argsForceManual (args1 False)"
    "argsFeesPayer (args1 False) = None"
    "\<And>st. Expenses (world1 (exp1 st) None) 1 = Some (exp1 st) \<and> expenseId (exp1 st) = 1
           \<and> \<not> isLocked (exp1 st) \<and> status (exp1 st) = st \<and> collective (exp1 st) = Some coll3
           \<and> expenseCurrency (exp1 st) = collectiveCurrency coll3
           \<and> legacyPayoutMethod (exp1 st) \<noteq> ''donation'' \<and> expenseType (exp1 st) \<noteq> SETTLEMENT
           \<and> feesPayer (exp1 st) \<noteq> PAYEE \<and> amount (exp1 st) = 10000"
    by (simp_all add: reqHostAdmin_def args1_def world1_def exp1_def coll3_def)
  have perm: "canPayExpense reqHostAdmin (exp1 APPROVED) False = Inr True"
    by code_simp
  have short: "balanceInCollectiveCurrency (env1 5000 BANK_ACCOUNT) < 10000"
    "assertMinExpectedBalance (env1 5000 BANK_ACCOUNT) True 10000 None
       = Inl (ValidationFailed ''Collective does not have enough funds to pay this expense'')"
    "notEnoughFunds None = ''Collective does not have enough funds to pay this expense''"
    "notPayable PAID = Forbidden ''Expense has already been paid'' None"
    by code_simp+
  have empty: "providerCalls (world1 (exp1 APPROVED) None) = []"
    "ledger (world1 (exp1 APPROVED) None) = []" "activities (world1 (exp1 APPROVED) None) = []"
    by (simp_all add: world1_def)
  let ?msg = "''Collective does not have enough funds to pay this expense''"
  have p1: "\<exists>x. Expenses (world1 (exp1 APPROVED) None) 1 = Some x \<and> status x \<in> {APPROVED, ERROR}"
    using run row(2)
      payExpense_guards [where env = "env1 50000 OTHER" and req = reqHostAdmin
        and args = "args1 False" and w = "world1 (exp1 APPROVED) None" and e = paidExpense
        and w' = "snd ?ok" and u = hostAdmin8 and x = "exp1 PAID" and c = coll3
        and err = "ValidationFailed ?msg" and a = 10000 and f = None]
    by simp
  have p2: "payExpense (env1 50000 OTHER) reqHostAdmin (args1 False) (world1 (exp1 PAID) None)
     = (Inl (Forbidden ''Expense has already been paid'' None), world1 (exp1 PAID) None)"
    using row(1,2) row(5) [of PAID] short(4)
      payExpense_guards [where env = "env1 50000 OTHER" and req = reqHostAdmin
        and args = "args1 False" and w = "world1 (exp1 PAID) None" and e = paidExpense
        and w' = "snd ?ok" and u = hostAdmin8 and x = "exp1 PAID" and c = coll3
        and err = "ValidationFailed ?msg" and a = 10000 and f = None]
    by simp
  have p3: "\<exists>v. payExpense (env1 5000 BANK_ACCOUNT) reqHostAdmin (args1 False)
           (world1 (exp1 APPROVED) None) = (Inl (ValidationFailed ?msg), v) \<and>
        ValidationFailed ?msg = ValidationFailed (notEnoughFunds None) \<and>
        providerCalls v = providerCalls (world1 (exp1 APPROVED) None) \<and>
        ledger v = ledger (world1 (exp1 APPROVED) None) \<and>
        activities v = activities (world1 (exp1 APPROVED) None) \<and>
        cache v = cache (world1 (exp1 APPROVED) None) \<and>
        (\<exists>x'. Expenses v (argsId (args1 False)) = Some x' \<and> status x' = status (exp1 APPROVED)
               \<and> \<not> isLocked x')"
    using row(1,2,3,4) row(5) [of APPROVED] perm short(2)
      payExpense_guards [where env = "env1 5000 BANK_ACCOUNT" and req = reqHostAdmin
        and args = "args1 False" and w = "world1 (exp1 APPROVED) None" and e = paidExpense
        and w' = "snd ?ok" and u = hostAdmin8 and x = "exp1 APPROVED" and c = coll3
        and err = "ValidationFailed ?msg" and a = 10000 and f = None]
    by simp
  from p3 row(2) row(5) [of APPROVED] empty
  have p3': "\<exists>v. payExpense (env1 5000 BANK_ACCOUNT) reqHostAdmin (args1 False)
           (world1 (exp1 APPROVED) None) = (Inl (ValidationFailed ?msg), v) \<and>
        providerCalls v = [] \<and> ledger v = [] \<and> activities v = [] \<and>
        (\<exists>x'. Expenses v 1 = Some x' \<and> status x' = APPROVED \<and> \<not> isLocked x')"
    by auto
  show ?thesis
    using paid p1 p2 p3' short(1) row(5) [of APPROVED] by simp
qed

text \<open>
  C3 as stated fails: with a balance of 5000 and an amount of 10000, a SETTLEMENT expense
  is paid (the balance checks are skipped for that type), and a forceManual payment is
  refused with a plain Error, not with ValidationFailed. With a balance of 10200, which
  covers the amount but not the amount plus the quoted fee of 500, ValidationFailed comes
  after the quote was requested from the provider.
\<close>

theorem payExpense_insufficient_counterexample:
  "balanceInCollectiveCurrency (env1 5000 OTHER) < amount settlement1 \<and>
   fst (payExpense (env1 5000 OTHER) reqHostAdmin (args1 False) (world1 settlement1 None))
     = Inr (settlement1\<lparr>status := PAID, lastEditedById := Some 8, isLocked := True\<rparr>) \<and>
   balanceInCollectiveCurrency (env1 5000 BANK_ACCOUNT) < amount (exp1 APPROVED) \<and>
   fst (payExpense (env1 5000 BANK_ACCOUNT) reqHostAdmin (args1 True)
          (world1 (exp1 APPROVED) None))
     = Inl (JsError ''Collective does not have enough funds to pay this expense.'') \<and>
   fst (payExpense (env1 10200 BANK_ACCOUNT) reqHostAdmin (args1 False)
          (world1 (exp1 APPROVED) None))
     = Inl (ValidationFailed
              ''Collective does not have enough funds to cover for the fees of this payment method'') \<and>
   providerCalls (snd (payExpense (env1 10200 BANK_ACCOUNT) reqHostAdmin (args1 False)
                         (world1 (exp1 APPROVED) None))) = [WiseQuote]"
  by code_simp

section \<open>Currency margin: verified properties\<close>






section \<open>Two-factor rolling limit: verified properties\<close>

text \<open>
  C5 on the code. A host admin pays an expense of 100 by bank transfer with the rolling
  limit in use, and the transfer fails. When the counter stood at 0 (its value after a
  payout that consumed a token), validateExpensePayout2FALimit raised it to 100 and the
  \<^verbatim>\<open>catch\<close> clause leaves it at 100: the clause skips a counter that read 0. When the
  counter stood at 500, it was raised to 600 and the clause sets it to 400: the clause
  subtracts the amount from the value read before the increment. In both runs the
  provider's error is re-raised unchanged.
\<close>

theorem rolling_limit_rollback_misses:
  "cache (world1 smallExpense (Some 0)) 8 = Some 0 \<and>
   fst (payExpense (env1 50000 BANK_ACCOUNT) reqHostAdmin (args1 False)
          (world1 smallExpense (Some 0))) = Inl (ExternalError ''Wise transfer failed'') \<and>
   cache (snd (payExpense (env1 50000 BANK_ACCOUNT) reqHostAdmin (args1 False)
                 (world1 smallExpense (Some 0)))) 8 = Some 100 \<and>
   cache (world1 smallExpense (Some 500)) 8 = Some 500 \<and>
   fst (payExpense (env1 50000 BANK_ACCOUNT) reqHostAdmin (args1 False)
          (world1 smallExpense (Some 500))) = Inl (ExternalError ''Wise transfer failed'') \<and>
   cache (snd (payExpense (env1 50000 BANK_ACCOUNT) reqHostAdmin (args1 False)
                 (world1 smallExpense (Some 500)))) 8 = Some 400"
  by code_simp

section \<open>Items: verified properties\<close>

text \<open>
  C10 on the code. checkExpenseItems rejects a missing or empty item list, more than 300
  items, an item without amount and a total of exactly 0, each with ValidationFailed;
  but a single item of -100 (total -100, not above 0) passes the check whose message
  reads "The sum of all items must be above 0".
\<close>

theorem checkExpenseItems_accepts_negative_sum:
  "computeTotalAmountForExpense [item (- 100)] [] = - 100 \<and>
   checkExpenseItems INVOICE (Some [item (- 100)]) [] = Inr () \<and>
   checkExpenseItems INVOICE (Some [item 0]) []
     = Inl (ValidationFailed ''The sum of all items must be above 0'') \<and>
   checkExpenseItems INVOICE (Some []) []
     = Inl (ValidationFailed ''Your expense needs to have at least one item'') \<and>
   checkExpenseItems INVOICE (Some (replicate 301 (item 1))) []
     = Inl (ValidationFailed ''Expenses cannot have more than 300 items'') \<and>
   checkExpenseItems INVOICE (Some [(item 1)\<lparr>itemAmount := None\<rparr>]) []
     = Inl (ValidationFailed ''Amount not set for item'') \<and>
   checkAttachedFiles (replicate 16 ''receipt.pdf'')
     = Inl (ValidationFailed
              ''The number of files that you can attach to an expense is limited to 15'')"
  by code_simp

section \<open>Locked fields: verified properties\<close>










end
